theory Spec2Isabelle
  imports Complex_Main "HOL-Library.Multiset"
begin

section \<open>Documents, collections and the store\<close>

text \<open>
  The server of \<^verbatim>\<open>src/index.ts\<close> keeps three collections (users, products, orders) in a
  document database and answers each operation with one resolver. The resolvers are
  embedded here as functions from a store to a result and the store after the call.

  What the embedding fixes about the libraries the resolvers call:
  \<^item> a JavaScript number is a value of the type parameter \<open>'n\<close>, with its zero and its
    addition (the type classes \<open>zero\<close> and \<open>plus\<close>). No law of arithmetic is assumed of
    them, so what is proved of the resolvers holds of IEEE doubles, whose addition
    rounds, depends on the order of the summands and overflows to Infinity. The concrete
    instances use real numbers whose sums are exact in doubles as well;
  \<^item> an identifier is a string. The database driver casts the identifier of a query to an
    ObjectId and throws a cast error when the string is malformed; which strings it
    accepts is the parameter \<open>isObjectId\<close> of \<open>createOrder\<close> and \<open>deleteOrder\<close>. The other
    resolvers are modelled on identifiers the driver accepts;
  \<^item> a collection is the list of its documents in the order in which a query returns
    them: the order of insertion, which is also the order of the ids the driver
    generates;
  \<^item> the id of a new document and the current time are inputs of the resolver that
    creates a document;
  \<^item> signing and verifying a token are parameters (\<open>sign\<close>, \<open>verify\<close>).
\<close>

type_synonym oid = string

record user_doc =
  user_id :: oid
  user_name :: string
  user_email :: string
  user_password :: string

text \<open>
  \<^verbatim>\<open>ProductSchema\<close> requires no field, and \<^verbatim>\<open>UpdateProductInput\<close> lets a caller
  send \<^verbatim>\<open>null\<close> for each of them: \<open>None\<close> is a field that is undefined or null.
\<close>

record 'n product_doc =
  product_id :: oid
  product_name :: "string option"
  product_description :: "string option"
  product_price :: "'n option"
  product_image :: "string option"

text \<open>A stored order holds references: the id of its user and the ids of its products.\<close>

record 'n order_doc =
  order_id :: oid
  order_user :: oid
  order_products :: "oid list"
  order_status :: string
  order_totalPrice :: 'n
  order_createdAt :: string

record 'n store =
  Users :: "user_doc list"
  Products :: "'n product_doc list"
  Orders :: "'n order_doc list"

text \<open>
  An error thrown by a resolver, with its message; a schema validation error of
  \<^verbatim>\<open>save\<close>; the cast error of the driver, with the string it refused.
\<close>

datatype error = Error string | ValidationError string | CastError string

type_synonym ('n, 'r) resolver = "'n store \<Rightarrow> (error + 'r) \<times> 'n store"

subsection \<open>The queries of the database driver\<close>

text \<open>\<^verbatim>\<open>Model.findById(id)\<close>: the document with that id, or null.\<close>

definition findById :: "('d \<Rightarrow> oid) \<Rightarrow> 'd list \<Rightarrow> oid \<Rightarrow> 'd option" where
  "findById key ds i = find (\<lambda>d. key d = i) ds"

text \<open>
  \<^verbatim>\<open>Model.find({ _id: { $in: ids } })\<close>: the documents whose id is one of \<open>ids\<close>, each
  document once, in the collection's order.
\<close>

definition find_in :: "('d \<Rightarrow> oid) \<Rightarrow> 'd list \<Rightarrow> oid list \<Rightarrow> 'd list" where
  "find_in key ds ids = filter (\<lambda>d. key d \<in> set ids) ds"

text \<open>
  \<^verbatim>\<open>findByIdAndUpdate(id, update, { new: true })\<close>: the first matching document is
  replaced; the result is the document after the update, or null. The schema's
  validators do not run on this path (the call does not pass \<^verbatim>\<open>runValidators\<close>).
\<close>

fun findOneAndUpdate :: "('d \<Rightarrow> bool) \<Rightarrow> ('d \<Rightarrow> 'd) \<Rightarrow> 'd list \<Rightarrow> 'd option \<times> 'd list" where
  "findOneAndUpdate P f [] = (None, [])"
| "findOneAndUpdate P f (d # ds) =
     (if P d then (Some (f d), f d # ds)
      else (case findOneAndUpdate P f ds of (r, ds') \<Rightarrow> (r, d # ds')))"

text \<open>\<^verbatim>\<open>findByIdAndDelete(id)\<close>: the first matching document is removed and returned, or null.\<close>

fun findOneAndDelete :: "('d \<Rightarrow> bool) \<Rightarrow> 'd list \<Rightarrow> 'd option \<times> 'd list" where
  "findOneAndDelete P [] = (None, [])"
| "findOneAndDelete P (d # ds) =
     (if P d then (Some d, ds)
      else (case findOneAndDelete P ds of (r, ds') \<Rightarrow> (r, d # ds')))"

subsection \<open>Hydration\<close>

text \<open>
  The interface \<^verbatim>\<open>Order\<close>: an order whose references are replaced by the documents
  they resolve to. \<^verbatim>\<open>populate("user products")\<close> leaves the user null when it does not
  resolve and drops the product references that do not resolve.
\<close>

record 'n Order =
  Order_id :: oid
  user :: "user_doc option"
  products :: "'n product_doc list"
  status :: string
  totalPrice :: 'n
  createdAt :: string

definition populate :: "'n store \<Rightarrow> 'n order_doc \<Rightarrow> 'n Order" where
  "populate s d =
     \<lparr> Order_id = order_id d,
       user = findById user_id (Users s) (order_user d),
       products = List.map_filter (findById product_id (Products s)) (order_products d),
       status = order_status d,
       totalPrice = order_totalPrice d,
       createdAt = order_createdAt d \<rparr>"

section \<open>Query resolvers\<close>

definition orders :: "('n, 'n Order list) resolver" where
  "orders s = (Inr (map (populate s) (Orders s)), s)"

definition order :: "oid \<Rightarrow> ('n, 'n Order option) resolver" where
  "order i s = (Inr (map_option (populate s) (findById order_id (Orders s) i)), s)"

definition userOrders :: "oid \<Rightarrow> ('n, 'n Order list) resolver" where
  "userOrders userId s =
     (Inr (map (populate s) (filter (\<lambda>d. order_user d = userId) (Orders s))), s)"

section \<open>Mutation resolvers\<close>

subsection \<open>Products\<close>

record 'n ProductInput =
  pi_name :: string
  pi_description :: string
  pi_price :: 'n
  pi_image :: string

definition createProduct :: "oid \<Rightarrow> 'n ProductInput \<Rightarrow> ('n, 'n product_doc) resolver" where
  "createProduct new_id input s =
     (let product = \<lparr> product_id = new_id,
                       product_name = Some (pi_name input),
                       product_description = Some (pi_description input),
                       product_price = Some (pi_price input),
                       product_image = Some (pi_image input) \<rparr>
      in (Inr product, s\<lparr>Products := Products s @ [product]\<rparr>))"

text \<open>
  A field of \<^verbatim>\<open>UpdateProductInput\<close> is absent (\<open>None\<close>), null (\<open>Some None\<close>) or a value.
  An absent field is left as it is by the update; a null or a value is stored.
\<close>

record 'n UpdateProductInput =
  upi_id :: oid
  upi_name :: "string option option"
  upi_description :: "string option option"
  upi_price :: "'n option option"
  upi_image :: "string option option"

definition set_field :: "'a option option \<Rightarrow> 'a option \<Rightarrow> 'a option" where
  "set_field new old = (case new of None \<Rightarrow> old | Some v \<Rightarrow> v)"

definition updateProduct :: "'n UpdateProductInput \<Rightarrow> ('n, 'n product_doc option) resolver" where
  "updateProduct input s =
     (case findOneAndUpdate (\<lambda>p. product_id p = upi_id input)
             (\<lambda>p. p\<lparr> product_name := set_field (upi_name input) (product_name p),
                     product_description := set_field (upi_description input) (product_description p),
                     product_price := set_field (upi_price input) (product_price p),
                     product_image := set_field (upi_image input) (product_image p) \<rparr>)
             (Products s) of
        (product, ps) \<Rightarrow> (Inr product, s\<lparr>Products := ps\<rparr>))"

definition deleteProduct :: "oid \<Rightarrow> ('n, string) resolver" where
  "deleteProduct i s =
     (case findOneAndDelete (\<lambda>p. product_id p = i) (Products s) of
        (None, ps) \<Rightarrow> (Inr ''Product already deleted'', s\<lparr>Products := ps\<rparr>)
      | (Some _, ps) \<Rightarrow> (Inr ''Product deleted'', s\<lparr>Products := ps\<rparr>))"

subsection \<open>Orders\<close>

text \<open>
  \<^verbatim>\<open>!product.price\<close>: true of an undefined or null price and of the number 0. The
  schema's cast refuses NaN, so NaN is no stored price; the two zeros of the doubles
  are the one number 0 here.
\<close>

definition falsy :: "'n::zero option \<Rightarrow> bool" where
  "falsy p = (case p of None \<Rightarrow> True | Some x \<Rightarrow> x = 0)"

text \<open>\<^verbatim>\<open>Array.prototype.reduce\<close> with a callback that may throw.\<close>

fun reduce :: "('a \<Rightarrow> 'd \<Rightarrow> error + 'a) \<Rightarrow> 'd list \<Rightarrow> 'a \<Rightarrow> error + 'a" where
  "reduce f [] acc = Inr acc"
| "reduce f (d # ds) acc =
     (case f acc d of Inl e \<Rightarrow> Inl e | Inr acc' \<Rightarrow> reduce f ds acc')"

definition add_price :: "'n::{zero,plus} \<Rightarrow> 'n product_doc \<Rightarrow> error + 'n" where
  "add_price acc product =
     (case product_price product of
        None \<Rightarrow> Inl (Error ''Product price is undefined or null'')
      | Some x \<Rightarrow>
          if falsy (Some x) then Inl (Error ''Product price is undefined or null'')
          else Inr (acc + x))"

text \<open>
  The \<^verbatim>\<open>status\<close> path of \<^verbatim>\<open>OrderSchema\<close>, as \<^verbatim>\<open>save\<close> applies it: an undefined status
  takes the default, any other must be one of the enum's values.
\<close>

definition status_enum :: "string list" where
  "status_enum = [''placed'', ''processing'', ''shipped'', ''delivered'']"

definition validate_status :: "string option \<Rightarrow> error + string" where
  "validate_status st =
     (case st of
        None \<Rightarrow> Inr ''placed''
      | Some v \<Rightarrow> if v \<in> set status_enum then Inr v else Inl (ValidationError ''status''))"

text \<open>
  \<open>createOrder\<close>, with the casts of its two queries: \<^verbatim>\<open>User.findById\<close> throws the cast
  error on a malformed user id, and \<^verbatim>\<open>Product.find\<close> on a malformed product id (the
  first one of the list), before any document is looked up.
\<close>

record CreateOrderInput =
  userId :: oid
  productIds :: "oid list"
  coi_status :: "string option"

definition createOrder ::
    "(oid \<Rightarrow> bool) \<Rightarrow> oid \<Rightarrow> string \<Rightarrow> CreateOrderInput \<Rightarrow> ('n::{zero,plus}, 'n Order) resolver" where
  "createOrder isObjectId new_id now input s =
     (if \<not> isObjectId (userId input) then (Inl (CastError (userId input)), s)
      else
        (case findById user_id (Users s) (userId input) of
           None \<Rightarrow> (Inl (Error ''User not found''), s)
         | Some u \<Rightarrow>
             (case find (\<lambda>i. \<not> isObjectId i) (productIds input) of
                Some i \<Rightarrow> (Inl (CastError i), s)
              | None \<Rightarrow>
                  let found = find_in product_id (Products s) (productIds input) in
                  if length found \<noteq> length (productIds input)
                  then (Inl (Error ''One or more products not found''), s)
                  else
                    (case reduce add_price found 0 of
                       Inl e \<Rightarrow> (Inl e, s)
                     | Inr acc \<Rightarrow>
                         (case validate_status (coi_status input) of
                            Inl e \<Rightarrow> (Inl e, s)
                          | Inr st \<Rightarrow>
                              let doc = \<lparr> order_id = new_id,
                                          order_user = userId input,
                                          order_products = productIds input,
                                          order_status = st,
                                          order_totalPrice = acc,
                                          order_createdAt = now \<rparr>;
                                  s' = s\<lparr>Orders := Orders s @ [doc]\<rparr>
                              in (Inr (populate s' doc), s'))))))"

record UpdateOrderStatusInput =
  uosi_id :: oid
  uosi_status :: string

record 'n UpdateOrderStatusResult =
  uos_order :: "'n Order"
  uos_message :: string

definition updateOrderStatus :: "UpdateOrderStatusInput \<Rightarrow> ('n, 'n UpdateOrderStatusResult) resolver" where
  "updateOrderStatus input s =
     (case findOneAndUpdate (\<lambda>d. order_id d = uosi_id input)
             (\<lambda>d. d\<lparr>order_status := uosi_status input\<rparr>) (Orders s) of
        (None, ds) \<Rightarrow>
          (Inl (Error (''Order with id '' @ uosi_id input @ '' not found'')), s\<lparr>Orders := ds\<rparr>)
      | (Some d, ds) \<Rightarrow>
          let s' = s\<lparr>Orders := ds\<rparr>
          in (Inr \<lparr> uos_order = populate s' d, uos_message = ''updated sucessfully'' \<rparr>, s'))"

text \<open>
  \<open>deleteOrder\<close>: \<^verbatim>\<open>Order.findByIdAndDelete\<close> throws the cast error on a malformed id, and the
  resolver has no handler for it.
\<close>

definition deleteOrder :: "(oid \<Rightarrow> bool) \<Rightarrow> oid \<Rightarrow> ('n, string) resolver" where
  "deleteOrder isObjectId i s =
     (if \<not> isObjectId i then (Inl (CastError i), s)
      else
        (case findOneAndDelete (\<lambda>d. order_id d = i) (Orders s) of
           (None, ds) \<Rightarrow> (Inr ''Order already deleted'', s\<lparr>Orders := ds\<rparr>)
         | (Some _, ds) \<Rightarrow> (Inr ''Order Deleted'', s\<lparr>Orders := ds\<rparr>)))"

subsection \<open>Sign-up, sign-in and the request context\<close>

definition JWT_SECRET :: string where
  "JWT_SECRET = ''secret''"

text \<open>The payload of a token: \<^verbatim>\<open>{ userId }\<close>; a foreign token may carry none.\<close>

record payload =
  pl_userId :: "oid option"

type_synonym jwt_sign = "payload \<Rightarrow> string \<Rightarrow> string"
type_synonym jwt_verify = "string \<Rightarrow> string \<Rightarrow> error + payload"

record SignUpResult =
  su_token :: string
  su_id :: oid
  su_message :: string

definition signUp :: "jwt_sign \<Rightarrow> oid \<Rightarrow> string \<Rightarrow> string \<Rightarrow> string \<Rightarrow> ('n, SignUpResult) resolver" where
  "signUp sign new_id name email password s =
     (case find (\<lambda>u. user_email u = email) (Users s) of
        Some existingUser \<Rightarrow> (Inl (Error ''User already exists''), s)
      | None \<Rightarrow>
          let u = \<lparr> user_id = new_id, user_name = name,
                    user_email = email, user_password = password \<rparr>;
              token = sign \<lparr> pl_userId = Some (user_id u) \<rparr> JWT_SECRET
          in (Inr \<lparr> su_token = token, su_id = user_id u, su_message = ''User Created'' \<rparr>,
              s\<lparr>Users := Users s @ [u]\<rparr>))"

record AuthData =
  ad_token :: string
  ad_userId :: oid

definition signIn :: "jwt_sign \<Rightarrow> string \<Rightarrow> string \<Rightarrow> ('n, AuthData) resolver" where
  "signIn sign email password s =
     (case find (\<lambda>u. user_email u = email) (Users s) of
        None \<Rightarrow> (Inl (Error ''Invalid email or password''), s)
      | Some u \<Rightarrow>
          if user_password u \<noteq> password
          then (Inl (Error ''Invalid email or password''), s)
          else (Inr \<lparr> ad_token = sign \<lparr> pl_userId = Some (user_id u) \<rparr> JWT_SECRET,
                      ad_userId = user_id u \<rparr>, s))"

definition signOut :: "('n, bool) resolver" where
  "signOut s = (Inr True, s)"

text \<open>
  The context function of the server. \<open>context_try\<close> is the body of its \<^verbatim>\<open>try\<close> block,
  which throws when the token does not verify; \<open>context\<close> adds the \<^verbatim>\<open>catch\<close>.
  \<^verbatim>\<open>findById(undefined)\<close> resolves to null. A cast error of the lookup is caught with
  the others and gives the null user, which is what the lookup gives here for an id
  that names no user.
\<close>

record MyContext =
  ctx_user :: "user_doc option"

definition context_try :: "jwt_verify \<Rightarrow> string \<Rightarrow> ('n, MyContext) resolver" where
  "context_try verify token s =
     (case verify token JWT_SECRET of
        Inl err \<Rightarrow> (Inl err, s)
      | Inr decoded \<Rightarrow>
          (Inr \<lparr> ctx_user = (case pl_userId decoded of
                               None \<Rightarrow> None
                             | Some uid \<Rightarrow> findById user_id (Users s) uid) \<rparr>, s))"

definition "context" :: "jwt_verify \<Rightarrow> string option \<Rightarrow> ('n, MyContext) resolver" where
  "context verify authorization s =
     (let token = (case authorization of None \<Rightarrow> '''' | Some h \<Rightarrow> h)
      in case context_try verify token s of
           (Inl err, s') \<Rightarrow> (Inr \<lparr> ctx_user = None \<rparr>, s')
         | (Inr c, s') \<Rightarrow> (Inr c, s'))"

section \<open>Notions of the specification and example data\<close>

text \<open>
  The collections of the database key their documents by a unique \<^verbatim>\<open>_id\<close>: a store is
  well formed when no id occurs twice in a collection.
\<close>

definition wf_store :: "'n store \<Rightarrow> bool" where
  "wf_store s \<longleftrightarrow>
     distinct (map user_id (Users s)) \<and>
     distinct (map product_id (Products s)) \<and>
     distinct (map order_id (Orders s))"

text \<open>
  A store the driver has written: its ids are unique and each is an ObjectId.
\<close>

definition store_ok :: "(oid \<Rightarrow> bool) \<Rightarrow> 'n store \<Rightarrow> bool" where
  "store_ok isObjectId s \<longleftrightarrow>
     wf_store s \<and>
     list_all (\<lambda>u. isObjectId (user_id u)) (Users s) \<and>
     list_all (\<lambda>p. isObjectId (product_id p)) (Products s) \<and>
     list_all (\<lambda>d. isObjectId (order_id d)) (Orders s)"

text \<open>
  The sum as the runtime computes it: accumulated from 0, one addition per summand, from
  left to right. \<open>price_value\<close> reads the price of a product that has one.
\<close>

definition running_sum :: "'n::{zero,plus} list \<Rightarrow> 'n" where
  "running_sum xs = foldl (+) 0 xs"

definition price_value :: "'n::zero product_doc \<Rightarrow> 'n" where
  "price_value p = (case product_price p of None \<Rightarrow> 0 | Some x \<Rightarrow> x)"

text \<open>
  The total of an order as the specification words it, for numbers whose addition is
  exact: the sum, over the requested ids in their order and with their repetitions, of
  the price of the product each id refers to.
\<close>

definition price_of :: "'n::zero store \<Rightarrow> oid \<Rightarrow> 'n" where
  "price_of s i =
     (case findById product_id (Products s) i of
        None \<Rightarrow> 0
      | Some p \<Rightarrow> price_value p)"

definition spec_totalPrice :: "'n::comm_monoid_add store \<Rightarrow> oid list \<Rightarrow> 'n" where
  "spec_totalPrice s ids = sum_list (map (price_of s) ids)"

text \<open>
  A small store for the concrete instances below: one user, products priced 10 and 15.5,
  a product priced 0 and a product whose price is null.
\<close>

definition example_user :: user_doc where
  "example_user = \<lparr> user_id = ''U1'', user_name = ''Ann'',
                     user_email = ''ann@example.org'', user_password = ''hunter2'' \<rparr>"

definition example_product :: "oid \<Rightarrow> real option \<Rightarrow> real product_doc" where
  "example_product i p = \<lparr> product_id = i, product_name = Some ''item'',
                           product_description = Some ''an item'',
                           product_price = p, product_image = Some ''item.png'' \<rparr>"

definition example_store :: "real store" where
  "example_store =
     \<lparr> Users = [example_user],
       Products = [example_product ''P1'' (Some 10), example_product ''P2'' (Some 15.5),
                   example_product ''P3'' (Some 0), example_product ''P4'' None],
       Orders = [] \<rparr>"

definition now0 :: string where
  "now0 = ''2024-01-01T00:00:00.000Z''"

definition example_order :: "real order_doc" where
  "example_order = \<lparr> order_id = ''O1'', order_user = ''U1'', order_products = [''P1'', ''P2''],
                      order_status = ''placed'', order_totalPrice = 25.5, order_createdAt = now0 \<rparr>"

definition example_order2 :: "real order_doc" where
  "example_order2 = \<lparr> order_id = ''O2'', order_user = ''U1'', order_products = [''P2''],
                       order_status = ''processing'', order_totalPrice = 15.5, order_createdAt = now0 \<rparr>"

definition example_store2 :: "real store" where
  "example_store2 = example_store\<lparr>Orders := [example_order, example_order2]\<rparr>"

definition example_price_update :: "real UpdateProductInput" where
  "example_price_update = \<lparr> upi_id = ''P1'', upi_name = None, upi_description = None,
                            upi_price = Some (Some 99), upi_image = None \<rparr>"

text \<open>
  A stand-in for the token library in the concrete instances: a token is the secret, a
  colon and the user id.
\<close>

definition example_sign :: jwt_sign where
  "example_sign pl secret = (case pl_userId pl of None \<Rightarrow> secret @ '':'' | Some uid \<Rightarrow> secret @ '':'' @ uid)"

definition example_verify :: jwt_verify where
  "example_verify token secret =
     (if take (length secret + 1) token = secret @ '':''
      then Inr \<lparr> pl_userId = Some (drop (length secret + 1) token) \<rparr>
      else Inl (Error ''invalid token''))"

text \<open>
  The strings every version of the driver accepts as an ObjectId: 24 hexadecimal digits.
  The instances of \<open>createOrder\<close> and \<open>deleteOrder\<close> take it for \<open>isObjectId\<close>, on a shop
  whose ids are such strings: one user, products priced 10, 15.5 and 0 and a product
  whose price is null, and two orders. The ids \<open>oidU9\<close> and \<open>oidP9\<close> are well formed and
  name no document.
\<close>

definition hex24 :: "oid \<Rightarrow> bool" where
  "hex24 i \<longleftrightarrow> length i = 24 \<and> list_all (\<lambda>c. c \<in> set ''0123456789abcdefABCDEF'') i"

definition oidU1 :: oid where "oidU1 = ''64d1f0a2b3c4d5e6f7a80001''"
definition oidP1 :: oid where "oidP1 = ''64d1f0a2b3c4d5e6f7a8a001''"
definition oidP2 :: oid where "oidP2 = ''64d1f0a2b3c4d5e6f7a8a002''"
definition oidP3 :: oid where "oidP3 = ''64d1f0a2b3c4d5e6f7a8a003''"
definition oidP4 :: oid where "oidP4 = ''64d1f0a2b3c4d5e6f7a8a004''"
definition oidO1 :: oid where "oidO1 = ''64d1f0a2b3c4d5e6f7a8b001''"
definition oidO2 :: oid where "oidO2 = ''64d1f0a2b3c4d5e6f7a8b002''"
definition oidO3 :: oid where "oidO3 = ''64d1f0a2b3c4d5e6f7a8b003''"
definition oidU9 :: oid where "oidU9 = ''64d1f0a2b3c4d5e6f7a80009''"
definition oidP9 :: oid where "oidP9 = ''64d1f0a2b3c4d5e6f7a8a009''"

definition shop_user :: user_doc where
  "shop_user = \<lparr> user_id = oidU1, user_name = ''Ann'',
                  user_email = ''ann@example.org'', user_password = ''hunter2'' \<rparr>"

definition shop :: "real store" where
  "shop =
     \<lparr> Users = [shop_user],
       Products = [example_product oidP1 (Some 10), example_product oidP2 (Some 15.5),
                   example_product oidP3 (Some 0), example_product oidP4 None],
       Orders = [] \<rparr>"

definition shop_order :: "real order_doc" where
  "shop_order = \<lparr> order_id = oidO1, order_user = oidU1, order_products = [oidP1, oidP2],
                   order_status = ''placed'', order_totalPrice = 25.5, order_createdAt = now0 \<rparr>"

definition shop_order2 :: "real order_doc" where
  "shop_order2 = \<lparr> order_id = oidO2, order_user = oidU1, order_products = [oidP2],
                    order_status = ''processing'', order_totalPrice = 15.5, order_createdAt = now0 \<rparr>"

definition shop2 :: "real store" where
  "shop2 = shop\<lparr>Orders := [shop_order, shop_order2]\<rparr>"

section \<open>Facts about the database queries\<close>

lemma findOneAndUpdate_fst: "fst (findOneAndUpdate P f ds) = map_option f (find P ds)"
  by (induction ds) (auto split: prod.splits)

lemma findOneAndUpdate_none: "find P ds = None \<Longrightarrow> findOneAndUpdate P f ds = (None, ds)"
  by (induction ds) (auto split: prod.splits if_splits)

lemma findOneAndUpdate_some:
  "find P ds = Some d \<Longrightarrow>
   \<exists>k<length ds. ds ! k = d \<and> P d \<and> (\<forall>j<k. \<not> P (ds ! j)) \<and>
      findOneAndUpdate P f ds = (Some (f d), ds[k := f d])"
proof (induction ds)
  case Nil
  then show ?case by simp
next
  case (Cons a ds)
  show ?case
  proof (cases "P a")
    case True
    with Cons.prems have "a = d" by simp
    with True show ?thesis by (intro exI[of _ 0]) simp
  next
    case False
    with Cons.prems have "find P ds = Some d" by simp
    from Cons.IH[OF this] obtain k where k: "k < length ds" "ds ! k = d" "P d"
      "\<forall>j<k. \<not> P (ds ! j)" "findOneAndUpdate P f ds = (Some (f d), ds[k := f d])" by blast
    have "\<forall>j<Suc k. \<not> P ((a # ds) ! j)"
      using False k(4) by (auto simp: nth_Cons split: nat.splits)
    with k False show ?thesis by (intro exI[of _ "Suc k"]) simp
  qed
qed

lemma findOneAndUpdate_map:
  "(\<And>d. g (f d) = g d) \<Longrightarrow> map g (snd (findOneAndUpdate P f ds)) = map g ds"
  by (induction ds) (auto split: prod.splits)

lemma find_after_update:
  "find P ds = Some d \<Longrightarrow> P (f d) \<Longrightarrow> find P (snd (findOneAndUpdate P f ds)) = Some (f d)"
  by (induction ds) (auto split: prod.splits if_splits)

lemma findOneAndDelete_fst: "fst (findOneAndDelete P ds) = find P ds"
  by (induction ds) (auto split: prod.splits)

lemma findOneAndDelete_none: "find P ds = None \<Longrightarrow> findOneAndDelete P ds = (None, ds)"
  by (induction ds) (auto split: prod.splits if_splits)

lemma findOneAndDelete_some_distinct:
  "find (\<lambda>d. key d = i) ds = Some d \<Longrightarrow> distinct (map key ds) \<Longrightarrow>
   findOneAndDelete (\<lambda>d. key d = i) ds = (Some d, filter (\<lambda>d. key d \<noteq> i) ds)"
proof (induction ds)
  case Nil
  then show ?case by simp
next
  case (Cons a ds)
  show ?case
  proof (cases "key a = i")
    case True
    with Cons.prems have "a = d" by simp
    moreover from True Cons.prems(2) have "i \<notin> key ` set ds" by simp
    then have "\<forall>x\<in>set ds. key x \<noteq> i" by blast
    then have "filter (\<lambda>d. key d \<noteq> i) ds = ds" by (simp add: filter_id_conv)
    ultimately show ?thesis using True by simp
  next
    case False
    with Cons show ?thesis by simp
  qed
qed

lemma findOneAndDelete_subset: "set (snd (findOneAndDelete P ds)) \<subseteq> set ds"
  by (induction ds) (auto split: prod.splits)

lemma findOneAndDelete_distinct:
  "distinct (map key ds) \<Longrightarrow> distinct (map key (snd (findOneAndDelete P ds)))"
proof (induction ds)
  case Nil
  then show ?case by simp
next
  case (Cons a ds)
  from Cons findOneAndDelete_subset[of P ds] show ?case by (auto split: prod.splits)
qed

lemma find_filter_neq: "find (\<lambda>d. key d = i) (filter (\<lambda>d. key d \<noteq> i) ds) = None"
  by (simp add: find_None_iff)

lemma find_distinct_key:
  "distinct (map key ds) \<Longrightarrow> d \<in> set ds \<Longrightarrow> find (\<lambda>x. key x = key d) ds = Some d"
proof (induction ds)
  case Nil
  then show ?case by simp
next
  case (Cons a ds)
  show ?case
  proof (cases "key a = key d")
    case True
    have "d = a"
    proof (rule ccontr)
      assume "d \<noteq> a"
      with Cons.prems(2) have "d \<in> set ds" by simp
      then have "key d \<in> key ` set ds" by blast
      with True Cons.prems(1) show False by simp
    qed
    then show ?thesis by simp
  next
    case False
    with Cons show ?thesis by auto
  qed
qed

lemma findById_mem: "findById key ds i = Some d \<Longrightarrow> d \<in> set ds \<and> key d = i"
  by (auto simp: findById_def find_Some_iff)

lemma find_cast_none: "find (\<lambda>i. \<not> P i) ids = None \<longleftrightarrow> (\<forall>i\<in>set ids. P i)"
  by (auto simp: find_None_iff)

subsection \<open>The query by a list of ids\<close>

lemma find_in_keys_distinct:
  "distinct (map key ds) \<Longrightarrow> distinct (map key (find_in key ds ids))"
  unfolding find_in_def by (simp add: distinct_map_filter)

lemma find_in_keys_set:
  "key ` set (find_in key ds ids) = set ids \<inter> key ` set ds"
  unfolding find_in_def by auto

lemma find_in_mset:
  assumes "distinct (map key ds)" "distinct ids" "set ids \<subseteq> key ` set ds"
  shows "mset (map key (find_in key ds ids)) = mset ids"
proof -
  have "set (map key (find_in key ds ids)) = set ids"
    using assms(3) by (auto simp: find_in_keys_set)
  with find_in_keys_distinct[OF assms(1), of ids] assms(2)
  show ?thesis by (simp only: set_eq_iff_mset_eq_distinct)
qed

lemma find_in_length:
  assumes "distinct (map key ds)" "distinct ids" "set ids \<subseteq> key ` set ds"
  shows "length (find_in key ds ids) = length ids"
proof -
  have "length (map key (find_in key ds ids)) = length ids"
    using find_in_mset[OF assms] by (rule mset_eq_length)
  then show ?thesis by simp
qed

lemma find_in_sum:
  fixes g :: "oid \<Rightarrow> 'a::comm_monoid_add"
  assumes "distinct (map key ds)" "distinct ids" "set ids \<subseteq> key ` set ds"
  shows "sum_list (map (\<lambda>d. g (key d)) (find_in key ds ids)) = sum_list (map g ids)"
proof -
  have "sum_list (map g (map key (find_in key ds ids))) = sum_mset (image_mset g (mset (map key (find_in key ds ids))))"
    by (simp only: sum_mset_sum_list[symmetric] mset_map)
  also have "\<dots> = sum_mset (image_mset g (mset ids))"
    by (simp only: find_in_mset[OF assms])
  also have "\<dots> = sum_list (map g ids)"
    by (simp only: sum_mset_sum_list[symmetric] mset_map)
  finally show ?thesis by (simp add: comp_def)
qed

lemma find_in_repeated:
  assumes "distinct (map key ds)" "\<not> distinct ids"
  shows "length (find_in key ds ids) < length ids"
proof -
  have "length (find_in key ds ids) = length (map key (find_in key ds ids))" by simp
  also have "\<dots> = card (set (map key (find_in key ds ids)))"
    using find_in_keys_distinct[OF assms(1), of ids] by (simp only: distinct_card)
  also have "\<dots> \<le> card (set ids)"
    by (rule card_mono) (auto simp: find_in_keys_set)
  also have "\<dots> < length ids"
    using assms(2) card_length[of ids] card_distinct[of ids] by linarith
  finally show ?thesis .
qed

lemma find_in_missing:
  assumes "distinct (map key ds)" "distinct ids" "\<not> set ids \<subseteq> key ` set ds"
  shows "length (find_in key ds ids) < length ids"
proof -
  have "length (find_in key ds ids) = length (map key (find_in key ds ids))" by simp
  also have "\<dots> = card (set (map key (find_in key ds ids)))"
    using find_in_keys_distinct[OF assms(1), of ids] by (simp only: distinct_card)
  also have "\<dots> < card (set ids)"
    by (rule psubset_card_mono) (use assms(3) in \<open>auto simp: find_in_keys_set\<close>)
  also have "\<dots> = length ids" using assms(2) by (rule distinct_card)
  finally show ?thesis .
qed

text \<open>
  In a collection with unique ids, the count of the documents found equals the count
  of the requested ids exactly when no id is requested twice and every id resolves.
\<close>

lemma find_in_count_iff:
  assumes "distinct (map key ds)"
  shows "length (find_in key ds ids) = length ids \<longleftrightarrow> distinct ids \<and> set ids \<subseteq> key ` set ds"
proof
  assume eq: "length (find_in key ds ids) = length ids"
  show "distinct ids \<and> set ids \<subseteq> key ` set ds"
  proof (rule ccontr)
    assume "\<not> (distinct ids \<and> set ids \<subseteq> key ` set ds)"
    then consider "\<not> distinct ids" | "distinct ids" "\<not> set ids \<subseteq> key ` set ds" by blast
    then have "length (find_in key ds ids) < length ids"
    proof cases
      case 1
      with assms show ?thesis by (rule find_in_repeated)
    next
      case 2
      with assms show ?thesis by (intro find_in_missing)
    qed
    with eq show False by simp
  qed
next
  assume "distinct ids \<and> set ids \<subseteq> key ` set ds"
  with assms show "length (find_in key ds ids) = length ids" by (intro find_in_length) simp_all
qed

lemma resolved_subset:
  assumes "\<forall>i\<in>set ids. \<exists>p. findById key ds i = Some p"
  shows "set ids \<subseteq> key ` set ds"
proof
  fix i assume "i \<in> set ids"
  with assms obtain p where "find (\<lambda>d. key d = i) ds = Some p"
    unfolding findById_def by blast
  then have "p \<in> set ds \<and> key p = i" by (auto simp: find_Some_iff)
  then show "i \<in> key ` set ds" by blast
qed

lemma resolved_in_found:
  assumes "findById product_id (Products s) i = Some p" "i \<in> set ids"
  shows "p \<in> set (find_in product_id (Products s) ids)"
  using findById_mem[OF assms(1)] assms(2) by (simp add: find_in_def)

lemma price_of_resolved:
  assumes "distinct (map product_id (Products s))" "p \<in> set (Products s)"
  shows "price_of s (product_id p) = price_value p"
  using find_distinct_key[OF assms] by (simp add: price_of_def findById_def)

subsection \<open>The reduction over the prices\<close>

text \<open>
  When every price is defined and not 0, the reduction returns the running sum of the
  prices in the order of the list; a price that is missing or 0 makes it throw.
\<close>

lemma reduce_add_price_ok:
  "\<forall>p\<in>set ps. \<not> falsy (product_price p) \<Longrightarrow>
   reduce add_price ps acc = Inr (foldl (+) acc (map price_value ps))"
  by (induction ps arbitrary: acc)
     (auto simp: add_price_def falsy_def price_value_def split: option.splits)

lemma reduce_add_price_falsy:
  "\<exists>p\<in>set ps. falsy (product_price p) \<Longrightarrow>
   reduce add_price ps acc = Inl (Error ''Product price is undefined or null'')"
  by (induction ps arbitrary: acc) (auto simp: add_price_def falsy_def split: option.splits)

lemma resolved_truthy:
  assumes wf: "distinct (map product_id (Products s))"
    and res: "\<forall>i\<in>set ids. \<exists>p x.
                findById product_id (Products s) i = Some p \<and> product_price p = Some x \<and> x \<noteq> 0"
  shows "\<forall>p\<in>set (find_in product_id (Products s) ids). \<not> falsy (product_price p)"
proof
  fix p assume "p \<in> set (find_in product_id (Products s) ids)"
  then have mem: "p \<in> set (Products s)" and "product_id p \<in> set ids"
    by (auto simp: find_in_def)
  with res obtain q x where q: "findById product_id (Products s) (product_id p) = Some q"
    "product_price q = Some x" "x \<noteq> 0" by blast
  from find_distinct_key[OF wf mem] q(1) have "q = p" by (simp add: findById_def)
  with q show "\<not> falsy (product_price p)" by (simp add: falsy_def)
qed

text \<open>
  For numbers whose addition is exact (a commutative monoid, which the doubles are
  not), the running sum over the products found is the sum over the requested ids that
  the specification words.
\<close>

lemma running_sum_exact:
  fixes xs :: "'a::comm_monoid_add list"
  shows "running_sum xs = sum_list xs"
proof -
  have "foldl (+) a xs = a + sum_list xs" for a :: 'a
    by (induction xs arbitrary: a) (simp_all add: add.assoc)
  from this[of 0] show ?thesis by (simp add: running_sum_def)
qed

lemma stored_total_exact:
  fixes s :: "'a::comm_monoid_add store"
  assumes "distinct (map product_id (Products s))" "distinct ids"
    and "set ids \<subseteq> product_id ` set (Products s)"
  shows "running_sum (map price_value (find_in product_id (Products s) ids)) = spec_totalPrice s ids"
proof -
  have "map price_value (find_in product_id (Products s) ids)
          = map (\<lambda>p. price_of s (product_id p)) (find_in product_id (Products s) ids)"
    using price_of_resolved[OF assms(1)] by (intro map_cong) (auto simp: find_in_def)
  then have "running_sum (map price_value (find_in product_id (Products s) ids))
          = sum_list (map (\<lambda>p. price_of s (product_id p)) (find_in product_id (Products s) ids))"
    by (simp only: running_sum_exact)
  also have "\<dots> = sum_list (map (price_of s) ids)"
    using assms by (rule find_in_sum)
  finally show ?thesis by (simp add: spec_totalPrice_def)
qed

section \<open>The store stays well formed\<close>

text \<open>
  Every mutation keeps the ids of each collection unique, and keeps them ObjectIds,
  provided the id given to a new document is an ObjectId that is not in use.
\<close>

lemma wf_store_empty: "wf_store \<lparr> Users = [], Products = [], Orders = [] \<rparr>"
  by (simp add: wf_store_def)

lemma wf_store_createProduct:
  "wf_store s \<Longrightarrow> new_id \<notin> product_id ` set (Products s) \<Longrightarrow>
   wf_store (snd (createProduct new_id input s))"
  by (simp add: wf_store_def createProduct_def Let_def)

lemma wf_store_updateProduct: "wf_store s \<Longrightarrow> wf_store (snd (updateProduct input s))"
proof -
  assume wf: "wf_store s"
  let ?r = "findOneAndUpdate (\<lambda>p. product_id p = upi_id input)
             (\<lambda>p. p\<lparr> product_name := set_field (upi_name input) (product_name p),
                     product_description := set_field (upi_description input) (product_description p),
                     product_price := set_field (upi_price input) (product_price p),
                     product_image := set_field (upi_image input) (product_image p) \<rparr>)
             (Products s)"
  have "map product_id (snd ?r) = map product_id (Products s)"
    by (rule findOneAndUpdate_map) simp
  moreover have "snd (updateProduct input s) = s\<lparr>Products := snd ?r\<rparr>"
    by (simp add: updateProduct_def split: prod.splits)
  ultimately show ?thesis using wf by (simp add: wf_store_def)
qed

lemma wf_store_deleteProduct: "wf_store s \<Longrightarrow> wf_store (snd (deleteProduct i s))"
proof -
  assume wf: "wf_store s"
  have "snd (deleteProduct i s) = s\<lparr>Products := snd (findOneAndDelete (\<lambda>p. product_id p = i) (Products s))\<rparr>"
    by (simp add: deleteProduct_def split: prod.splits option.splits)
  with wf findOneAndDelete_distinct[of product_id "Products s" "\<lambda>p. product_id p = i"]
  show ?thesis by (simp add: wf_store_def)
qed

lemma wf_store_createOrder:
  "wf_store s \<Longrightarrow> new_id \<notin> order_id ` set (Orders s) \<Longrightarrow>
   wf_store (snd (createOrder isObjectId new_id now input s))"
  by (simp add: wf_store_def createOrder_def Let_def split: option.splits sum.splits)

lemma wf_store_updateOrderStatus: "wf_store s \<Longrightarrow> wf_store (snd (updateOrderStatus input s))"
proof -
  assume wf: "wf_store s"
  let ?r = "findOneAndUpdate (\<lambda>d. order_id d = uosi_id input)
             (\<lambda>d. d\<lparr>order_status := uosi_status input\<rparr>) (Orders s)"
  have "map order_id (snd ?r) = map order_id (Orders s)"
    by (rule findOneAndUpdate_map) simp
  moreover have "snd (updateOrderStatus input s) = s\<lparr>Orders := snd ?r\<rparr>"
    by (simp add: updateOrderStatus_def Let_def split: prod.splits option.splits)
  ultimately show ?thesis using wf by (simp add: wf_store_def)
qed

lemma deleteOrder_snd:
  "snd (deleteOrder isObjectId i s) = s \<or>
   snd (deleteOrder isObjectId i s)
     = s\<lparr>Orders := snd (findOneAndDelete (\<lambda>d. order_id d = i) (Orders s))\<rparr>"
  by (simp add: deleteOrder_def split: prod.splits option.splits)

lemma wf_store_deleteOrder: "wf_store s \<Longrightarrow> wf_store (snd (deleteOrder isObjectId i s))"
  using deleteOrder_snd[of isObjectId i s]
        findOneAndDelete_distinct[of order_id "Orders s" "\<lambda>d. order_id d = i"]
  by (auto simp: wf_store_def)

lemma wf_store_signUp:
  "wf_store s \<Longrightarrow> new_id \<notin> user_id ` set (Users s) \<Longrightarrow>
   wf_store (snd (signUp sign new_id name email password s))"
  by (simp add: wf_store_def signUp_def Let_def split: option.splits)

lemma ids_cast_map: "list_all (\<lambda>d. c (key d)) ds = list_all c (map key ds)"
  by (simp add: list.pred_map comp_def)

lemma ids_cast_subset: "set ds' \<subseteq> set ds \<Longrightarrow> list_all P ds \<Longrightarrow> list_all P ds'"
  by (auto simp: list_all_iff)

lemma store_ok_empty: "store_ok isObjectId \<lparr> Users = [], Products = [], Orders = [] \<rparr>"
  by (simp add: store_ok_def wf_store_def)

lemma store_ok_createProduct:
  "store_ok isObjectId s \<Longrightarrow> isObjectId new_id \<Longrightarrow> new_id \<notin> product_id ` set (Products s) \<Longrightarrow>
   store_ok isObjectId (snd (createProduct new_id input s))"
  by (simp add: store_ok_def wf_store_def createProduct_def Let_def)

lemma store_ok_updateProduct:
  assumes "store_ok isObjectId s"
  shows "store_ok isObjectId (snd (updateProduct input s))"
proof -
  let ?r = "findOneAndUpdate (\<lambda>p. product_id p = upi_id input)
             (\<lambda>p. p\<lparr> product_name := set_field (upi_name input) (product_name p),
                     product_description := set_field (upi_description input) (product_description p),
                     product_price := set_field (upi_price input) (product_price p),
                     product_image := set_field (upi_image input) (product_image p) \<rparr>)
             (Products s)"
  have "map product_id (snd ?r) = map product_id (Products s)"
    by (rule findOneAndUpdate_map) simp
  moreover have "snd (updateProduct input s) = s\<lparr>Products := snd ?r\<rparr>"
    by (simp add: updateProduct_def split: prod.splits)
  ultimately show ?thesis
    using assms wf_store_updateProduct[of s input]
    by (simp add: store_ok_def ids_cast_map[of isObjectId product_id])
qed

lemma store_ok_deleteProduct:
  assumes "store_ok isObjectId s"
  shows "store_ok isObjectId (snd (deleteProduct i s))"
proof -
  have "snd (deleteProduct i s)
      = s\<lparr>Products := snd (findOneAndDelete (\<lambda>p. product_id p = i) (Products s))\<rparr>"
    by (simp add: deleteProduct_def split: prod.splits option.splits)
  with assms wf_store_deleteProduct[of s i]
       ids_cast_subset[OF findOneAndDelete_subset[of "\<lambda>p. product_id p = i" "Products s"]]
  show ?thesis by (simp add: store_ok_def)
qed

lemma store_ok_createOrder:
  "store_ok isObjectId s \<Longrightarrow> isObjectId new_id \<Longrightarrow> new_id \<notin> order_id ` set (Orders s) \<Longrightarrow>
   store_ok isObjectId (snd (createOrder isObjectId new_id now input s))"
  by (simp add: store_ok_def wf_store_def createOrder_def Let_def split: option.splits sum.splits)

lemma store_ok_updateOrderStatus:
  assumes "store_ok isObjectId s"
  shows "store_ok isObjectId (snd (updateOrderStatus input s))"
proof -
  let ?r = "findOneAndUpdate (\<lambda>d. order_id d = uosi_id input)
             (\<lambda>d. d\<lparr>order_status := uosi_status input\<rparr>) (Orders s)"
  have "map order_id (snd ?r) = map order_id (Orders s)"
    by (rule findOneAndUpdate_map) simp
  moreover have "snd (updateOrderStatus input s) = s\<lparr>Orders := snd ?r\<rparr>"
    by (simp add: updateOrderStatus_def Let_def split: prod.splits option.splits)
  ultimately show ?thesis
    using assms wf_store_updateOrderStatus[of s input]
    by (simp add: store_ok_def ids_cast_map[of isObjectId order_id])
qed

lemma store_ok_deleteOrder:
  assumes "store_ok isObjectId s"
  shows "store_ok isObjectId (snd (deleteOrder isObjectId i s))"
  using assms deleteOrder_snd[of isObjectId i s] wf_store_deleteOrder[of s isObjectId i]
        ids_cast_subset[OF findOneAndDelete_subset[of "\<lambda>d. order_id d = i" "Orders s"]]
  by (auto simp: store_ok_def)

lemma store_ok_signUp:
  "store_ok isObjectId s \<Longrightarrow> isObjectId new_id \<Longrightarrow> new_id \<notin> user_id ` set (Users s) \<Longrightarrow>
   store_ok isObjectId (snd (signUp sign new_id name email password s))"
  by (simp add: store_ok_def wf_store_def signUp_def Let_def split: option.splits)

lemma store_ok_user:
  "store_ok isObjectId s \<Longrightarrow> findById user_id (Users s) i = Some u \<Longrightarrow> isObjectId i"
  by (auto simp: store_ok_def list_all_iff dest: findById_mem)

lemma store_ok_product:
  "store_ok isObjectId s \<Longrightarrow> findById product_id (Products s) i = Some p \<Longrightarrow> isObjectId i"
  by (auto simp: store_ok_def list_all_iff dest: findById_mem)

lemma store_ok_products_distinct:
  "store_ok isObjectId s \<Longrightarrow> distinct (map product_id (Products s))"
  by (simp add: store_ok_def wf_store_def)

lemma store_ok_orders_distinct:
  "store_ok isObjectId s \<Longrightarrow> distinct (map order_id (Orders s))"
  by (simp add: store_ok_def wf_store_def)

section \<open>The example shop\<close>

lemmas oid_defs = oidU1_def oidP1_def oidP2_def oidP3_def oidP4_def oidO1_def oidO2_def oidO3_def
  oidU9_def oidP9_def

lemma hex24_oids:
  "hex24 oidU1" "hex24 oidP1" "hex24 oidP2" "hex24 oidP3" "hex24 oidP4"
  "hex24 oidO1" "hex24 oidO2" "hex24 oidO3" "hex24 oidU9" "hex24 oidP9"
  by (simp_all add: hex24_def oid_defs)

lemma shop_ok: "store_ok hex24 shop"
  by (simp add: store_ok_def wf_store_def shop_def shop_user_def example_product_def hex24_def oid_defs)

lemma shop2_ok: "store_ok hex24 shop2"
  by (simp add: store_ok_def wf_store_def shop2_def shop_def shop_user_def shop_order_def shop_order2_def
      example_product_def hex24_def oid_defs)

lemma shop_users: "findById user_id (Users shop) oidU1 = Some shop_user"
  "findById user_id (Users shop) oidU9 = None"
  by (simp_all add: findById_def shop_def shop_user_def oid_defs)

lemma shop_products:
  "findById product_id (Products shop) oidP1 = Some (example_product oidP1 (Some 10))"
  "findById product_id (Products shop) oidP2 = Some (example_product oidP2 (Some 15.5))"
  "findById product_id (Products shop) oidP3 = Some (example_product oidP3 (Some 0))"
  "findById product_id (Products shop) oidP4 = Some (example_product oidP4 None)"
  "findById product_id (Products shop) oidP9 = None"
  by (simp_all add: findById_def shop_def example_product_def oid_defs)

lemma shop_find_in:
  "find_in product_id (Products shop) [oidP2, oidP1]
     = [example_product oidP1 (Some 10), example_product oidP2 (Some 15.5)]"
  "find_in product_id (Products shop) [oidP1, oidP1, oidP2]
     = [example_product oidP1 (Some 10), example_product oidP2 (Some 15.5)]"
  "find_in product_id (Products shop) [oidP1, oidP9] = [example_product oidP1 (Some 10)]"
  "find_in product_id (Products shop) [oidP1, oidP4]
     = [example_product oidP1 (Some 10), example_product oidP4 None]"
  "find_in product_id (Products shop) [oidP4, oidP4] = [example_product oidP4 None]"
  "find_in product_id (Products shop) [oidP3, oidP2]
     = [example_product oidP2 (Some 15.5), example_product oidP3 (Some 0)]"
  "find_in product_id (Products shop) [oidP3, oidP3, oidP1]
     = [example_product oidP1 (Some 10), example_product oidP3 (Some 0)]"
  "find_in product_id (Products shop) [oidP3] = [example_product oidP3 (Some 0)]"
  by (simp_all add: find_in_def shop_def example_product_def oid_defs)

lemma shop_createOrder_casts:
  "find (\<lambda>i. \<not> hex24 i) [oidP1, oidP1, oidP2] = None"
  "find (\<lambda>i. \<not> hex24 i) [oidP3] = None"
  "find (\<lambda>i. \<not> hex24 i) [oidP4, oidP4] = None"
  "find (\<lambda>i. \<not> hex24 i) [oidP3, oidP3, oidP1] = None"
  by (simp_all add: hex24_oids)

lemma shop2_orders:
  "findById order_id (Orders shop2) oidO1 = Some shop_order"
  "findById order_id (Orders shop2) oidO3 = None"
  "filter (\<lambda>d. order_id d \<noteq> oidO1) (Orders shop2) = [shop_order2]"
  "distinct (map order_id (Orders shop2))"
  by (simp_all add: findById_def shop2_def shop_order_def shop_order2_def oid_defs)

section \<open>Properties of the resolvers\<close>

subsection \<open>What the resolvers do to the stored orders\<close>

lemma createOrder_after_casts:
  assumes "isObjectId (userId input)"
    and "findById user_id (Users s) (userId input) = Some u"
    and "\<forall>i\<in>set (productIds input). isObjectId i"
  shows "createOrder isObjectId new_id now input s =
           (if length (find_in product_id (Products s) (productIds input)) \<noteq> length (productIds input)
            then (Inl (Error ''One or more products not found''), s)
            else
              (case reduce add_price (find_in product_id (Products s) (productIds input)) 0 of
                 Inl e \<Rightarrow> (Inl e, s)
               | Inr acc \<Rightarrow>
                   (case validate_status (coi_status input) of
                      Inl e \<Rightarrow> (Inl e, s)
                    | Inr st \<Rightarrow>
                        (Inr (populate
                               (s\<lparr>Orders := Orders s @
                                   [\<lparr> order_id = new_id, order_user = userId input,
                                      order_products = productIds input, order_status = st,
                                      order_totalPrice = acc, order_createdAt = now \<rparr>]\<rparr>)
                               \<lparr> order_id = new_id, order_user = userId input,
                                 order_products = productIds input, order_status = st,
                                 order_totalPrice = acc, order_createdAt = now \<rparr>),
                         s\<lparr>Orders := Orders s @
                             [\<lparr> order_id = new_id, order_user = userId input,
                                order_products = productIds input, order_status = st,
                                order_totalPrice = acc, order_createdAt = now \<rparr>]\<rparr>))))"
proof -
  from assms(3) have "find (\<lambda>i. \<not> isObjectId i) (productIds input) = None"
    by (simp add: find_cast_none)
  with assms(1,2) show ?thesis by (simp add: createOrder_def Let_def split: sum.splits)
qed

lemma createOrder_unique_ids:
  assumes ok: "store_ok isObjectId s"
    and user: "findById user_id (Users s) (userId input) = Some u"
    and dist: "distinct (productIds input)"
    and res: "\<forall>i\<in>set (productIds input). \<exists>p x.
                findById product_id (Products s) i = Some p \<and> product_price p = Some x \<and> x \<noteq> 0"
    and st: "validate_status (coi_status input) = Inr st"
  shows "createOrder isObjectId new_id now input s =
           (Inr (populate
                  (s\<lparr>Orders := Orders s @
                      [\<lparr> order_id = new_id, order_user = userId input,
                         order_products = productIds input, order_status = st,
                         order_totalPrice =
                           running_sum (map price_value (find_in product_id (Products s) (productIds input))),
                         order_createdAt = now \<rparr>]\<rparr>)
                  \<lparr> order_id = new_id, order_user = userId input,
                    order_products = productIds input, order_status = st,
                    order_totalPrice =
                      running_sum (map price_value (find_in product_id (Products s) (productIds input))),
                    order_createdAt = now \<rparr>),
            s\<lparr>Orders := Orders s @
                [\<lparr> order_id = new_id, order_user = userId input,
                   order_products = productIds input, order_status = st,
                   order_totalPrice =
                     running_sum (map price_value (find_in product_id (Products s) (productIds input))),
                   order_createdAt = now \<rparr>]\<rparr>)"
proof -
  let ?found = "find_in product_id (Products s) (productIds input)"
  note wf = store_ok_products_distinct[OF ok]
  have casts: "isObjectId (userId input)" "\<forall>i\<in>set (productIds input). isObjectId i"
    using store_ok_user[OF ok user] store_ok_product[OF ok] res by blast+
  have sub: "set (productIds input) \<subseteq> product_id ` set (Products s)"
    using res by (intro resolved_subset) blast
  have len: "length ?found = length (productIds input)"
    using wf dist sub by (rule find_in_length)
  have "reduce add_price ?found 0 = Inr (running_sum (map price_value ?found))"
    using reduce_add_price_ok[OF resolved_truthy[OF wf res], of 0] by (simp add: running_sum_def)
  with len st show ?thesis
    by (simp add: createOrder_after_casts[OF casts(1) user casts(2)])
qed

lemma createOrder_repeated_id:
  assumes ok: "store_ok isObjectId s"
    and user: "findById user_id (Users s) (userId input) = Some u"
    and casts: "\<forall>i\<in>set (productIds input). isObjectId i"
    and dup: "\<not> distinct (productIds input)"
  shows "createOrder isObjectId new_id now input s = (Inl (Error ''One or more products not found''), s)"
  using find_in_repeated[OF store_ok_products_distinct[OF ok] dup]
  by (simp add: createOrder_after_casts[OF store_ok_user[OF ok user] user casts])

lemma createOrder_falsy_price:
  assumes ok: "store_ok isObjectId s"
    and user: "findById user_id (Users s) (userId input) = Some u"
    and dist: "distinct (productIds input)"
    and res: "\<forall>i\<in>set (productIds input). \<exists>p. findById product_id (Products s) i = Some p"
    and bad: "i \<in> set (productIds input)" "findById product_id (Products s) i = Some p"
      "falsy (product_price p)"
  shows "createOrder isObjectId new_id now input s =
           (Inl (Error ''Product price is undefined or null''), s)"
proof -
  let ?found = "find_in product_id (Products s) (productIds input)"
  note wf = store_ok_products_distinct[OF ok]
  have casts: "isObjectId (userId input)" "\<forall>i\<in>set (productIds input). isObjectId i"
    using store_ok_user[OF ok user] store_ok_product[OF ok] res by blast+
  have sub: "set (productIds input) \<subseteq> product_id ` set (Products s)"
    using res by (rule resolved_subset)
  have len: "length ?found = length (productIds input)"
    using wf dist sub by (rule find_in_length)
  have "\<exists>p\<in>set ?found. falsy (product_price p)"
    using resolved_in_found[OF bad(2,1)] bad(3) by blast
  then have "reduce add_price ?found 0 = Inl (Error ''Product price is undefined or null'')"
    by (rule reduce_add_price_falsy)
  with len show ?thesis
    by (simp add: createOrder_after_casts[OF casts(1) user casts(2)])
qed

lemma createOrder_error_unchanged:
  "createOrder isObjectId new_id now input s = (Inl e, s') \<Longrightarrow> s' = s"
  by (auto simp: createOrder_def Let_def split: option.splits if_splits sum.splits)

lemma createOrder_keeps_orders:
  "\<exists>ds. Orders (snd (createOrder isObjectId new_id now input s)) = Orders s @ ds"
  by (simp add: createOrder_def Let_def split: option.splits sum.splits)

lemma updateOrderStatus_not_found:
  "findById order_id (Orders s) (uosi_id input) = None \<Longrightarrow>
   updateOrderStatus input s = (Inl (Error (''Order with id '' @ uosi_id input @ '' not found'')), s)"
  by (simp add: updateOrderStatus_def findById_def findOneAndUpdate_none)

lemma updateOrderStatus_totals:
  "map (\<lambda>d. (order_id d, order_totalPrice d)) (Orders (snd (updateOrderStatus input s)))
     = map (\<lambda>d. (order_id d, order_totalPrice d)) (Orders s)"
proof -
  let ?r = "findOneAndUpdate (\<lambda>d. order_id d = uosi_id input)
             (\<lambda>d. d\<lparr>order_status := uosi_status input\<rparr>) (Orders s)"
  have "map (\<lambda>d. (order_id d, order_totalPrice d)) (snd ?r)
          = map (\<lambda>d. (order_id d, order_totalPrice d)) (Orders s)"
    by (rule findOneAndUpdate_map) simp
  moreover have "snd (updateOrderStatus input s) = s\<lparr>Orders := snd ?r\<rparr>"
    by (simp add: updateOrderStatus_def Let_def split: prod.splits option.splits)
  ultimately show ?thesis by simp
qed

lemma deleteOrder_keeps_orders:
  "set (Orders (snd (deleteOrder isObjectId i s))) \<subseteq> set (Orders s)"
  using deleteOrder_snd[of isObjectId i s]
        findOneAndDelete_subset[of "\<lambda>d. order_id d = i" "Orders s"]
  by auto

lemma updateProduct_Orders: "Orders (snd (updateProduct input s)) = Orders s"
  by (simp add: updateProduct_def split: prod.splits)

lemma other_resolvers_keep_orders:
  "Orders (snd (createProduct new_id pinput s)) = Orders s"
  "Orders (snd (deleteProduct i s)) = Orders s"
  "Orders (snd (signUp sign new_id name email password s)) = Orders s"
  "Orders (snd (signIn sign email password s)) = Orders s"
  "Orders (snd (signOut s)) = Orders s"
  "Orders (snd (context verify authorization s)) = Orders s"
  by (simp_all add: createProduct_def deleteProduct_def signUp_def signIn_def signOut_def
      context_def context_try_def Let_def split: prod.splits option.splits sum.splits)

lemma populate_totalPrice: "totalPrice (populate s d) = order_totalPrice d"
  by (simp add: populate_def)

subsection \<open>The total of a new order\<close>

text \<open>
  Claim C1, as amended. In a store whose ids are unique ObjectIds, when the user
  resolves: if the requested product ids are pairwise distinct, each resolves to a
  product with a defined price other than 0, and the status is undefined or a value of
  the enum, then \<open>createOrder\<close> succeeds, stores one new order, and the total of that
  order, stored and returned, is the running sum of the prices of the referenced
  products: accumulated from 0 by the addition of the runtime, in the order in which the
  collection holds the products; the products summed are the referenced ones, each
  once. No law of addition is used, so this is what the code
  stores with doubles as well; it is the exact sum when the additions are exact
  (\<open>stored_total_exact\<close>). If an id is requested twice, \<open>createOrder\<close> fails with the
  products-not-found error and stores nothing: the query by \<^verbatim>\<open>$in\<close> returns every
  matching product once, so the count of the resolved products is below the count of
  the requested ids.
\<close>

theorem createOrder_totalPrice_unique_ids:
  assumes "store_ok isObjectId s"
    and "findById user_id (Users s) (userId input) = Some u"
  shows "(distinct (productIds input) \<and>
          (\<forall>i\<in>set (productIds input). \<exists>p x.
              findById product_id (Products s) i = Some p \<and> product_price p = Some x \<and> x \<noteq> 0) \<and>
          validate_status (coi_status input) = Inr st \<longrightarrow>
            (\<exists>v. createOrder isObjectId new_id now input s =
                   (Inr v, s\<lparr>Orders := Orders s @
                      [\<lparr> order_id = new_id, order_user = userId input,
                         order_products = productIds input, order_status = st,
                         order_totalPrice =
                           running_sum (map price_value
                             (find_in product_id (Products s) (productIds input))),
                         order_createdAt = now \<rparr>]\<rparr>) \<and>
                 totalPrice v =
                   running_sum (map price_value
                     (find_in product_id (Products s) (productIds input)))) \<and>
            mset (map product_id (find_in product_id (Products s) (productIds input)))
              = mset (productIds input)) \<and>
         ((\<forall>i\<in>set (productIds input). isObjectId i) \<and> \<not> distinct (productIds input) \<longrightarrow>
            createOrder isObjectId new_id now input s
              = (Inl (Error ''One or more products not found''), s))"
proof (intro conjI impI)
  assume "distinct (productIds input) \<and>
          (\<forall>i\<in>set (productIds input). \<exists>p x.
              findById product_id (Products s) i = Some p \<and> product_price p = Some x \<and> x \<noteq> 0) \<and>
          validate_status (coi_status input) = Inr st"
  then have "distinct (productIds input)"
    and "\<forall>i\<in>set (productIds input). \<exists>p x.
              findById product_id (Products s) i = Some p \<and> product_price p = Some x \<and> x \<noteq> 0"
    and "validate_status (coi_status input) = Inr st" by blast+
  note h = this
  have "set (productIds input) \<subseteq> product_id ` set (Products s)"
    using h(2) by (intro resolved_subset) blast
  with store_ok_products_distinct[OF assms(1)] h(1)
  show "mset (map product_id (find_in product_id (Products s) (productIds input)))
              = mset (productIds input)"
    by (rule find_in_mset)
  from createOrder_unique_ids[OF assms h, of new_id now]
  show "\<exists>v. createOrder isObjectId new_id now input s =
                   (Inr v, s\<lparr>Orders := Orders s @
                      [\<lparr> order_id = new_id, order_user = userId input,
                         order_products = productIds input, order_status = st,
                         order_totalPrice =
                           running_sum (map price_value
                             (find_in product_id (Products s) (productIds input))),
                         order_createdAt = now \<rparr>]\<rparr>) \<and>
                 totalPrice v =
                   running_sum (map price_value
                     (find_in product_id (Products s) (productIds input)))"
    by (simp add: populate_def)
next
  assume "(\<forall>i\<in>set (productIds input). isObjectId i) \<and> \<not> distinct (productIds input)"
  then have "\<forall>i\<in>set (productIds input). isObjectId i" "\<not> distinct (productIds input)" by blast+
  with assms show "createOrder isObjectId new_id now input s
      = (Inl (Error ''One or more products not found''), s)"
    by (rule createOrder_repeated_id)
qed

text \<open>
  An instance: products priced 15.5 and 10 give the total 25.5 (0 + 10 + 15.5, exact in
  doubles); the ids \<open>[P1, P1, P2]\<close> are rejected.
\<close>

theorem createOrder_totalPrice_unique_ids_witness:
  "(\<exists>v. createOrder hex24 oidO3 now0
          \<lparr> userId = oidU1, productIds = [oidP2, oidP1], coi_status = None \<rparr> shop =
        (Inr v, shop\<lparr>Orders :=
           [\<lparr> order_id = oidO3, order_user = oidU1, order_products = [oidP2, oidP1],
              order_status = ''placed'', order_totalPrice = 25.5, order_createdAt = now0 \<rparr>]\<rparr>) \<and>
        totalPrice v = 25.5) \<and>
   createOrder hex24 oidO3 now0
      \<lparr> userId = oidU1, productIds = [oidP1, oidP1, oidP2], coi_status = None \<rparr> shop =
     (Inl (Error ''One or more products not found''), shop)"
proof -
  let ?in1 = "\<lparr> userId = oidU1, productIds = [oidP2, oidP1], coi_status = None \<rparr>"
  let ?in2 = "\<lparr> userId = oidU1, productIds = [oidP1, oidP1, oidP2], coi_status = None \<rparr>"
  have u1: "findById user_id (Users shop) (userId ?in1) = Some shop_user"
    and u2: "findById user_id (Users shop) (userId ?in2) = Some shop_user"
    by (simp_all add: shop_users)
  have "\<exists>x. (31 / 2 :: real) = x \<and> x \<noteq> 0" by (rule exI[of _ "31 / 2"]) simp
  then have h1: "distinct (productIds ?in1) \<and>
      (\<forall>i\<in>set (productIds ?in1). \<exists>p x.
          findById product_id (Products shop) i = Some p \<and> product_price p = Some x \<and> x \<noteq> 0) \<and>
      validate_status (coi_status ?in1) = Inr ''placed''"
    by (simp add: shop_products example_product_def validate_status_def) (simp add: oid_defs)
  have h2: "(\<forall>i\<in>set (productIds ?in2). hex24 i) \<and> \<not> distinct (productIds ?in2)"
    by (simp add: hex24_oids)
  have tot: "running_sum (map price_value (find_in product_id (Products shop) (productIds ?in1)))
               = (25.5 :: real)"
    by (simp add: shop_find_in running_sum_def price_value_def example_product_def)
  have emp: "Orders shop = []" by (simp add: shop_def)
  from createOrder_totalPrice_unique_ids
         [OF shop_ok u1, where st = "''placed''" and new_id = oidO3 and now = now0] h1
  have "\<exists>v. createOrder hex24 oidO3 now0 ?in1 shop =
          (Inr v, shop\<lparr>Orders := Orders shop @
             [\<lparr> order_id = oidO3, order_user = userId ?in1,
                order_products = productIds ?in1, order_status = ''placed'',
                order_totalPrice =
                  running_sum (map price_value (find_in product_id (Products shop) (productIds ?in1))),
                order_createdAt = now0 \<rparr>]\<rparr>) \<and>
          totalPrice v =
            running_sum (map price_value (find_in product_id (Products shop) (productIds ?in1)))"
    by blast
  then have a: "\<exists>v. createOrder hex24 oidO3 now0 ?in1 shop =
        (Inr v, shop\<lparr>Orders :=
           [\<lparr> order_id = oidO3, order_user = oidU1, order_products = [oidP2, oidP1],
              order_status = ''placed'', order_totalPrice = 25.5, order_createdAt = now0 \<rparr>]\<rparr>) \<and>
        totalPrice v = 25.5"
    unfolding tot emp by simp
  from createOrder_totalPrice_unique_ids
         [OF shop_ok u2, where st = "''placed''" and new_id = oidO3 and now = now0] h2
  have "createOrder hex24 oidO3 now0 ?in2 shop
          = (Inl (Error ''One or more products not found''), shop)"
    by blast
  with a show ?thesis by blast
qed

text \<open>
  Claim C1 as the specification states it fails on the code. The ids \<open>[P1, P1, P2]\<close> of
  products priced 10 and 15.5 all resolve, and the sum the claim asks for is 35.5, yet
  \<open>createOrder\<close> fails; and one product with the defined price 0 makes it fail with the
  missing-price error.
\<close>

theorem createOrder_repeated_id_counterexample:
  "findById user_id (Users shop) oidU1 = Some shop_user \<and>
   map (\<lambda>i. map_option product_price (findById product_id (Products shop) i))
       [oidP1, oidP1, oidP2] = [Some (Some 10), Some (Some 10), Some (Some 15.5)] \<and>
   spec_totalPrice shop [oidP1, oidP1, oidP2] = 35.5 \<and>
   createOrder hex24 oidO3 now0
      \<lparr> userId = oidU1, productIds = [oidP1, oidP1, oidP2], coi_status = None \<rparr> shop =
     (Inl (Error ''One or more products not found''), shop) \<and>
   map_option product_price (findById product_id (Products shop) oidP3) = Some (Some 0) \<and>
   createOrder hex24 oidO3 now0
      \<lparr> userId = oidU1, productIds = [oidP3], coi_status = None \<rparr> shop =
     (Inl (Error ''Product price is undefined or null''), shop)"
  by (simp add: createOrder_def spec_totalPrice_def price_of_def price_value_def shop_users
      shop_products shop_find_in shop_createOrder_casts hex24_oids example_product_def
      add_price_def falsy_def)

subsection \<open>References that do not resolve\<close>

text \<open>
  Claim C2, as amended. The preconditions are checked one after the other. If the user
  id is an ObjectId that does not resolve, \<open>createOrder\<close> fails with the user-not-found
  error. If the user resolves, every product id is an ObjectId and the count of the
  resolved products differs from the count of the requested ids, it fails with the
  products-not-found error. A user id that is no ObjectId makes it fail with the cast
  error of the driver, and so does, once the user has resolved, a product id that is no
  ObjectId. Whenever \<open>createOrder\<close> fails, the store is the one before the call: no order
  is persisted.
\<close>

theorem createOrder_not_found:
  "(isObjectId (userId input) \<and> findById user_id (Users s) (userId input) = None \<longrightarrow>
      createOrder isObjectId new_id now input s = (Inl (Error ''User not found''), s)) \<and>
   (isObjectId (userId input) \<and> (\<exists>u. findById user_id (Users s) (userId input) = Some u) \<and>
    (\<forall>i\<in>set (productIds input). isObjectId i) \<and>
    length (find_in product_id (Products s) (productIds input)) \<noteq> length (productIds input) \<longrightarrow>
      createOrder isObjectId new_id now input s
        = (Inl (Error ''One or more products not found''), s)) \<and>
   (\<not> isObjectId (userId input) \<longrightarrow>
      createOrder isObjectId new_id now input s = (Inl (CastError (userId input)), s)) \<and>
   (isObjectId (userId input) \<and> (\<exists>u. findById user_id (Users s) (userId input) = Some u) \<and>
    \<not> (\<forall>i\<in>set (productIds input). isObjectId i) \<longrightarrow>
      (\<exists>i. i \<in> set (productIds input) \<and> \<not> isObjectId i \<and>
           createOrder isObjectId new_id now input s = (Inl (CastError i), s))) \<and>
   (\<forall>e s'. createOrder isObjectId new_id now input s = (Inl e, s') \<longrightarrow> s' = s)"
proof (intro conjI impI allI)
  assume "isObjectId (userId input) \<and> findById user_id (Users s) (userId input) = None"
  then show "createOrder isObjectId new_id now input s = (Inl (Error ''User not found''), s)"
    by (simp add: createOrder_def)
next
  assume "isObjectId (userId input) \<and> (\<exists>u. findById user_id (Users s) (userId input) = Some u) \<and>
    (\<forall>i\<in>set (productIds input). isObjectId i) \<and>
    length (find_in product_id (Products s) (productIds input)) \<noteq> length (productIds input)"
  then obtain u where "isObjectId (userId input)" "findById user_id (Users s) (userId input) = Some u"
    "\<forall>i\<in>set (productIds input). isObjectId i"
    "length (find_in product_id (Products s) (productIds input)) \<noteq> length (productIds input)"
    by blast
  then show "createOrder isObjectId new_id now input s
      = (Inl (Error ''One or more products not found''), s)"
    by (simp add: createOrder_after_casts)
next
  assume "\<not> isObjectId (userId input)"
  then show "createOrder isObjectId new_id now input s = (Inl (CastError (userId input)), s)"
    by (simp add: createOrder_def)
next
  assume "isObjectId (userId input) \<and> (\<exists>u. findById user_id (Users s) (userId input) = Some u) \<and>
    \<not> (\<forall>i\<in>set (productIds input). isObjectId i)"
  then obtain u where h: "isObjectId (userId input)"
    "findById user_id (Users s) (userId input) = Some u"
    "\<not> (\<forall>i\<in>set (productIds input). isObjectId i)" by blast
  from h(3) obtain i where i: "find (\<lambda>i. \<not> isObjectId i) (productIds input) = Some i"
    by (cases "find (\<lambda>i. \<not> isObjectId i) (productIds input)") (auto simp: find_cast_none)
  then have "i \<in> set (productIds input) \<and> \<not> isObjectId i"
    by (auto simp: find_Some_iff)
  moreover from h(1,2) i have "createOrder isObjectId new_id now input s = (Inl (CastError i), s)"
    by (simp add: createOrder_def)
  ultimately show "\<exists>i. i \<in> set (productIds input) \<and> \<not> isObjectId i \<and>
           createOrder isObjectId new_id now input s = (Inl (CastError i), s)" by blast
next
  fix e s' assume "createOrder isObjectId new_id now input s = (Inl e, s')"
  then show "s' = s" by (rule createOrder_error_unchanged)
qed

theorem createOrder_not_found_witness:
  "createOrder hex24 oidO3 now0 \<lparr> userId = oidU9, productIds = [oidP1], coi_status = None \<rparr> shop
     = (Inl (Error ''User not found''), shop) \<and>
   createOrder hex24 oidO3 now0 \<lparr> userId = oidU1, productIds = [oidP1, oidP9], coi_status = None \<rparr> shop
     = (Inl (Error ''One or more products not found''), shop) \<and>
   createOrder hex24 oidO3 now0 \<lparr> userId = ''U9'', productIds = [oidP1], coi_status = None \<rparr> shop
     = (Inl (CastError ''U9''), shop) \<and>
   createOrder hex24 oidO3 now0 \<lparr> userId = oidU1, productIds = [oidP1, ''P7''], coi_status = None \<rparr> shop
     = (Inl (CastError ''P7''), shop)"
proof -
  have 1: "\<not> hex24 ''U9''" "\<not> hex24 ''P7''" by (simp_all add: hex24_def)
  have 2: "\<exists>u. findById user_id (Users shop) oidU1 = Some u" by (simp add: shop_users)
  have 3: "length (find_in product_id (Products shop) [oidP1, oidP9]) \<noteq> length [oidP1, oidP9]"
    by (simp add: shop_find_in)
  have a: "createOrder hex24 oidO3 now0
             \<lparr> userId = oidU9, productIds = [oidP1], coi_status = None \<rparr> shop
           = (Inl (Error ''User not found''), shop)"
    using createOrder_not_found
            [of hex24 "\<lparr> userId = oidU9, productIds = [oidP1], coi_status = None \<rparr>" shop oidO3 now0]
          shop_users hex24_oids
    by simp
  have b: "createOrder hex24 oidO3 now0
             \<lparr> userId = oidU1, productIds = [oidP1, oidP9], coi_status = None \<rparr> shop
           = (Inl (Error ''One or more products not found''), shop)"
    using createOrder_not_found
            [of hex24 "\<lparr> userId = oidU1, productIds = [oidP1, oidP9], coi_status = None \<rparr>" shop oidO3 now0]
          2 3 hex24_oids
    by simp
  have c: "createOrder hex24 oidO3 now0
             \<lparr> userId = ''U9'', productIds = [oidP1], coi_status = None \<rparr> shop
           = (Inl (CastError ''U9''), shop)"
    using createOrder_not_found
            [of hex24 "\<lparr> userId = ''U9'', productIds = [oidP1], coi_status = None \<rparr>" shop oidO3 now0]
          1
    by simp
  have "\<exists>i. i \<in> set [oidP1, ''P7''] \<and> \<not> hex24 i \<and>
          createOrder hex24 oidO3 now0
             \<lparr> userId = oidU1, productIds = [oidP1, ''P7''], coi_status = None \<rparr> shop
           = (Inl (CastError i), shop)"
    using createOrder_not_found
            [of hex24 "\<lparr> userId = oidU1, productIds = [oidP1, ''P7''], coi_status = None \<rparr>" shop oidO3 now0]
          1 2 hex24_oids
    by simp
  then have d: "createOrder hex24 oidO3 now0
             \<lparr> userId = oidU1, productIds = [oidP1, ''P7''], coi_status = None \<rparr> shop
           = (Inl (CastError ''P7''), shop)"
    using hex24_oids(2) by auto
  from a b c d show ?thesis by blast
qed

text \<open>
  Claim C2 as stated asks for the user-not-found error whenever the user id does not
  resolve. The string \<open>U9\<close> resolves to no user, and the call fails with the cast error
  instead.
\<close>

theorem createOrder_malformed_user_counterexample:
  "findById user_id (Users shop) ''U9'' = None \<and>
   createOrder hex24 oidO3 now0 \<lparr> userId = ''U9'', productIds = [oidP1], coi_status = None \<rparr> shop
     = (Inl (CastError ''U9''), shop) \<and>
   CastError ''U9'' \<noteq> Error ''User not found''"
  by (simp add: createOrder_def hex24_def findById_def shop_def shop_user_def oidU1_def)

subsection \<open>Products without a price\<close>

text \<open>
  Claim C3, as amended. In a store whose ids are unique ObjectIds, when the user
  resolves, the requested product ids are pairwise distinct and each resolves, and one
  of them resolves to a product with no defined price, \<open>createOrder\<close> fails with the
  missing-price error and the store is unchanged.
\<close>

theorem createOrder_missing_price:
  assumes "store_ok isObjectId s"
    and "findById user_id (Users s) (userId input) = Some u"
    and "distinct (productIds input)"
    and "\<forall>i\<in>set (productIds input). \<exists>p. findById product_id (Products s) i = Some p"
    and "i \<in> set (productIds input)"
    and "findById product_id (Products s) i = Some p"
    and "product_price p = None"
  shows "createOrder isObjectId new_id now input s
           = (Inl (Error ''Product price is undefined or null''), s)"
proof -
  from assms(7) have "falsy (product_price p)" by (simp add: falsy_def)
  with assms(1-6) show ?thesis by (rule createOrder_falsy_price)
qed

theorem createOrder_missing_price_witness:
  "createOrder hex24 oidO3 now0 \<lparr> userId = oidU1, productIds = [oidP1, oidP4], coi_status = None \<rparr> shop
     = (Inl (Error ''Product price is undefined or null''), shop)"
proof -
  let ?in = "\<lparr> userId = oidU1, productIds = [oidP1, oidP4], coi_status = None \<rparr>"
  have u: "findById user_id (Users shop) (userId ?in) = Some shop_user"
    by (simp add: shop_users)
  have d: "distinct (productIds ?in)" by (simp add: oid_defs)
  have r: "\<forall>i\<in>set (productIds ?in). \<exists>p. findById product_id (Products shop) i = Some p"
    by (simp add: shop_products)
  have m: "oidP4 \<in> set (productIds ?in)" by simp
  have n: "product_price (example_product oidP4 None :: real product_doc) = None"
    by (simp add: example_product_def)
  show ?thesis
    using createOrder_missing_price[OF shop_ok u d r m shop_products(4) n, of oidO3 now0] .
qed

text \<open>
  Claim C3 as stated fails when an id is requested twice: the ids \<open>[P4, P4]\<close> resolve,
  the price of P4 is null, and \<open>createOrder\<close> fails with the products-not-found error,
  which comes before the price check.
\<close>

theorem createOrder_missing_price_counterexample:
  "findById user_id (Users shop) oidU1 = Some shop_user \<and>
   map (\<lambda>i. map_option product_price (findById product_id (Products shop) i)) [oidP4, oidP4]
     = [Some None, Some None] \<and>
   createOrder hex24 oidO3 now0 \<lparr> userId = oidU1, productIds = [oidP4, oidP4], coi_status = None \<rparr> shop
     = (Inl (Error ''One or more products not found''), shop) \<and>
   Error ''One or more products not found'' \<noteq> Error ''Product price is undefined or null''"
  by (simp add: createOrder_def shop_users shop_products shop_find_in shop_createOrder_casts
      hex24_oids example_product_def)

subsection \<open>Updating the status of an order\<close>

text \<open>
  Claim C4. For an existing order and any status, \<open>updateOrderStatus\<close> replaces the
  stored order at its position by the same order with the new status: its total, user,
  products, creation time and id are as before, every other order is as before, and
  the users and the products are as before.
\<close>

theorem updateOrderStatus_frame:
  assumes "findById order_id (Orders s) i = Some d"
  shows "\<exists>k s'. k < length (Orders s) \<and> Orders s ! k = d \<and> order_id d = i \<and>
           snd (updateOrderStatus \<lparr> uosi_id = i, uosi_status = st \<rparr> s) = s' \<and>
           s' = s\<lparr>Orders := (Orders s)[k := d\<lparr>order_status := st\<rparr>]\<rparr> \<and>
           Users s' = Users s \<and> Products s' = Products s \<and>
           length (Orders s') = length (Orders s) \<and>
           (\<forall>j<length (Orders s). j \<noteq> k \<longrightarrow> Orders s' ! j = Orders s ! j) \<and>
           order_status (Orders s' ! k) = st \<and>
           order_totalPrice (Orders s' ! k) = order_totalPrice d \<and>
           order_user (Orders s' ! k) = order_user d \<and>
           order_products (Orders s' ! k) = order_products d \<and>
           order_createdAt (Orders s' ! k) = order_createdAt d \<and>
           order_id (Orders s' ! k) = order_id d"
proof -
  from assms have "find (\<lambda>d. order_id d = i) (Orders s) = Some d" by (simp add: findById_def)
  from findOneAndUpdate_some[OF this, of "\<lambda>d. d\<lparr>order_status := st\<rparr>"]
  obtain k where k: "k < length (Orders s)" "Orders s ! k = d" "order_id d = i"
    "findOneAndUpdate (\<lambda>d. order_id d = i) (\<lambda>d. d\<lparr>order_status := st\<rparr>) (Orders s)
       = (Some (d\<lparr>order_status := st\<rparr>), (Orders s)[k := d\<lparr>order_status := st\<rparr>])"
    by blast
  define s' where "s' = s\<lparr>Orders := (Orders s)[k := d\<lparr>order_status := st\<rparr>]\<rparr>"
  from k(4) have run: "snd (updateOrderStatus \<lparr> uosi_id = i, uosi_status = st \<rparr> s) = s'"
    by (simp add: updateOrderStatus_def Let_def s'_def)
  have frame: "Users s' = Users s" "Products s' = Products s" "length (Orders s') = length (Orders s)"
    "\<forall>j<length (Orders s). j \<noteq> k \<longrightarrow> Orders s' ! j = Orders s ! j"
    by (simp_all add: s'_def)
  from k(1) have at_k: "Orders s' ! k = d\<lparr>order_status := st\<rparr>" by (simp add: s'_def)
  show ?thesis
    using k(1-3) run frame at_k by (intro exI[of _ k] exI[of _ s']) (simp add: s'_def)
qed

theorem updateOrderStatus_frame_witness:
  "snd (updateOrderStatus \<lparr> uosi_id = ''O2'', uosi_status = ''delivered'' \<rparr> example_store2)
     = example_store2\<lparr>Orders := [example_order, example_order2\<lparr>order_status := ''delivered''\<rparr>]\<rparr>"
proof -
  have 1: "findById order_id (Orders example_store2) ''O2'' = Some example_order2"
    by (simp add: example_store2_def example_order_def example_order2_def findById_def)
  have 2: "Orders example_store2 = [example_order, example_order2]"
    by (simp add: example_store2_def)
  have 3: "example_order \<noteq> example_order2"
    by (simp add: example_order_def example_order2_def)
  from updateOrderStatus_frame[OF 1, of "''delivered''"]
  obtain k where k: "k < length (Orders example_store2)" "Orders example_store2 ! k = example_order2"
    "snd (updateOrderStatus \<lparr> uosi_id = ''O2'', uosi_status = ''delivered'' \<rparr> example_store2)
       = example_store2\<lparr>Orders := (Orders example_store2)[k := example_order2\<lparr>order_status := ''delivered''\<rparr>]\<rparr>"
    by blast
  from k(1,2) 2 3 have "k = 1" by (cases k) auto
  with k(3) 2 show ?thesis by simp
qed

subsection \<open>The total is fixed at creation\<close>

text \<open>
  Claim C5. The queries \<open>orders\<close>, \<open>order\<close> and \<open>userOrders\<close> leave the store as it is, and
  a hydrated order carries the stored total. \<open>updateProduct\<close> leaves the stored orders as
  they are, so after any product update the three queries still report, for every
  order, the total stored at its creation.
\<close>

theorem totalPrice_frozen:
  "snd (orders s) = s \<and> snd (order i s) = s \<and> snd (userOrders uid s) = s \<and>
   fst (orders s) = Inr (map (populate s) (Orders s)) \<and>
   map totalPrice (map (populate s) (Orders s)) = map order_totalPrice (Orders s) \<and>
   Orders (snd (updateProduct input s)) = Orders s \<and>
   (\<exists>vs. fst (orders (snd (updateProduct input s))) = Inr vs \<and>
         map totalPrice vs = map order_totalPrice (Orders s)) \<and>
   (\<exists>v. fst (order i (snd (updateProduct input s))) = Inr v \<and>
        map_option totalPrice v = map_option order_totalPrice (findById order_id (Orders s) i)) \<and>
   (\<exists>vs. fst (userOrders uid (snd (updateProduct input s))) = Inr vs \<and>
         map totalPrice vs = map order_totalPrice (filter (\<lambda>d. order_user d = uid) (Orders s)))"
  by (simp add: orders_def order_def userOrders_def updateProduct_Orders populate_totalPrice
      comp_def option.map_comp)

text \<open>
  An instance: after the price of product P1 is changed from 10 to 99, the orders are
  still reported with the totals 25.5 and 15.5.
\<close>

theorem totalPrice_frozen_witness:
  "map_option product_price (findById product_id (Products (snd (updateProduct example_price_update example_store2))) ''P1'')
     = Some (Some 99) \<and>
   (\<exists>vs. fst (orders (snd (updateProduct example_price_update example_store2))) = Inr vs \<and>
         map totalPrice vs = [25.5, 15.5])"
proof -
  have 1: "map order_totalPrice (Orders example_store2) = [25.5, 15.5]"
    by (simp add: example_store2_def example_order_def example_order2_def)
  have 2: "map_option product_price (findById product_id (Products (snd (updateProduct example_price_update example_store2))) ''P1'')
     = Some (Some 99)"
    by (simp add: updateProduct_def example_price_update_def example_store2_def example_store_def
        example_product_def findById_def set_field_def)
  show ?thesis
    using totalPrice_frozen[of example_store2 "''O1''" "''U1''" example_price_update] 1 2
    by simp
qed

subsection \<open>Deleting an order\<close>

text \<open>
  Claim C6, as amended. For an id that is an ObjectId, \<open>deleteOrder\<close> returns a message
  and never an error. When no order has the id, the message is that the order was
  already deleted and the store is unchanged. When an order has the id (in a collection
  with unique ids), the message is that the order was deleted, the order is removed,
  and a second call with the same id returns the already-deleted message. For an id
  that is no ObjectId, \<open>deleteOrder\<close> fails with the cast error of the driver and the
  store is unchanged.
\<close>

theorem deleteOrder_idempotent:
  "(isObjectId i \<longrightarrow> (\<exists>m. fst (deleteOrder isObjectId i s) = Inr m)) \<and>
   (isObjectId i \<and> findById order_id (Orders s) i = None \<longrightarrow>
      deleteOrder isObjectId i s = (Inr ''Order already deleted'', s)) \<and>
   (isObjectId i \<and> (\<exists>d. findById order_id (Orders s) i = Some d) \<and>
    distinct (map order_id (Orders s)) \<longrightarrow>
      deleteOrder isObjectId i s
        = (Inr ''Order Deleted'', s\<lparr>Orders := filter (\<lambda>d. order_id d \<noteq> i) (Orders s)\<rparr>) \<and>
      findById order_id (Orders (snd (deleteOrder isObjectId i s))) i = None \<and>
      deleteOrder isObjectId i (snd (deleteOrder isObjectId i s))
        = (Inr ''Order already deleted'', snd (deleteOrder isObjectId i s))) \<and>
   (\<not> isObjectId i \<longrightarrow> deleteOrder isObjectId i s = (Inl (CastError i), s))"
proof (intro conjI impI)
  assume "isObjectId i"
  then show "\<exists>m. fst (deleteOrder isObjectId i s) = Inr m"
    by (simp add: deleteOrder_def split: prod.splits option.splits)
next
  assume "isObjectId i \<and> findById order_id (Orders s) i = None"
  then have "isObjectId i"
    and "findOneAndDelete (\<lambda>d. order_id d = i) (Orders s) = (None, Orders s)"
    by (simp_all add: findById_def findOneAndDelete_none)
  then show "deleteOrder isObjectId i s = (Inr ''Order already deleted'', s)"
    by (simp add: deleteOrder_def)
next
  assume h: "isObjectId i \<and> (\<exists>d. findById order_id (Orders s) i = Some d) \<and>
    distinct (map order_id (Orders s))"
  then obtain d where ok: "isObjectId i"
    and d: "find (\<lambda>d. order_id d = i) (Orders s) = Some d"
    and dist: "distinct (map order_id (Orders s))" by (auto simp: findById_def)
  from findOneAndDelete_some_distinct[OF d dist] ok
  show first: "deleteOrder isObjectId i s
      = (Inr ''Order Deleted'', s\<lparr>Orders := filter (\<lambda>d. order_id d \<noteq> i) (Orders s)\<rparr>)"
    by (simp add: deleteOrder_def)
  then show gone: "findById order_id (Orders (snd (deleteOrder isObjectId i s))) i = None"
    by (simp add: findById_def find_filter_neq)
  then have "findOneAndDelete (\<lambda>d. order_id d = i) (Orders (snd (deleteOrder isObjectId i s)))
      = (None, Orders (snd (deleteOrder isObjectId i s)))"
    by (simp add: findById_def findOneAndDelete_none)
  with ok show "deleteOrder isObjectId i (snd (deleteOrder isObjectId i s))
      = (Inr ''Order already deleted'', snd (deleteOrder isObjectId i s))"
    by (simp add: deleteOrder_def)
next
  assume "\<not> isObjectId i"
  then show "deleteOrder isObjectId i s = (Inl (CastError i), s)"
    by (simp add: deleteOrder_def)
qed

theorem deleteOrder_idempotent_witness:
  "deleteOrder hex24 oidO1 shop2 = (Inr ''Order Deleted'', shop2\<lparr>Orders := [shop_order2]\<rparr>) \<and>
   deleteOrder hex24 oidO1 (shop2\<lparr>Orders := [shop_order2]\<rparr>)
     = (Inr ''Order already deleted'', shop2\<lparr>Orders := [shop_order2]\<rparr>) \<and>
   deleteOrder hex24 oidO3 shop2 = (Inr ''Order already deleted'', shop2) \<and>
   deleteOrder hex24 ''O7'' shop2 = (Inl (CastError ''O7''), shop2)"
proof -
  have 1: "\<exists>d. findById order_id (Orders shop2) oidO1 = Some d" by (simp add: shop2_orders)
  have 7: "\<not> hex24 ''O7''" by (simp add: hex24_def)
  from deleteOrder_idempotent[of hex24 oidO1 shop2] 1 shop2_orders(4) hex24_oids(6)
  have a: "deleteOrder hex24 oidO1 shop2
            = (Inr ''Order Deleted'', shop2\<lparr>Orders := filter (\<lambda>d. order_id d \<noteq> oidO1) (Orders shop2)\<rparr>)"
    and b: "deleteOrder hex24 oidO1 (snd (deleteOrder hex24 oidO1 shop2))
            = (Inr ''Order already deleted'', snd (deleteOrder hex24 oidO1 shop2))"
    by blast+
  from deleteOrder_idempotent[of hex24 oidO3 shop2] shop2_orders(2) hex24_oids(8)
  have c: "deleteOrder hex24 oidO3 shop2 = (Inr ''Order already deleted'', shop2)"
    by blast
  from deleteOrder_idempotent[of hex24 "''O7''" shop2] 7
  have e: "deleteOrder hex24 ''O7'' shop2 = (Inl (CastError ''O7''), shop2)"
    by blast
  from a have a': "deleteOrder hex24 oidO1 shop2
            = (Inr ''Order Deleted'', shop2\<lparr>Orders := [shop_order2]\<rparr>)"
    by (simp add: shop2_orders(3))
  from b a' have "deleteOrder hex24 oidO1 (shop2\<lparr>Orders := [shop_order2]\<rparr>)
     = (Inr ''Order already deleted'', shop2\<lparr>Orders := [shop_order2]\<rparr>)" by simp
  with a' c e show ?thesis by simp
qed

text \<open>
  Claim C6 as stated covers every id. The string \<open>O7\<close> is the id of no order, and
  \<open>deleteOrder\<close> raises the cast error instead of reporting the order as already
  deleted.
\<close>

theorem deleteOrder_malformed_id_counterexample:
  "findById order_id (Orders shop2) ''O7'' = None \<and>
   deleteOrder hex24 ''O7'' shop2 = (Inl (CastError ''O7''), shop2) \<and>
   fst (deleteOrder hex24 ''O7'' shop2) \<noteq> Inr ''Order already deleted''"
  by (simp add: deleteOrder_def hex24_def findById_def shop2_def shop_order_def shop_order2_def
      oid_defs)

subsection \<open>Sign-up and sign-in\<close>

text \<open>
  Claim C7. \<open>signUp\<close> fails with the user-exists error, and leaves the store as it is,
  when a user with the email exists. \<open>signIn\<close> fails with the invalid-credentials
  error when no user has the email, and when the password stored for the user found by
  the email differs from the one supplied; otherwise it returns the token signed for
  the id of that user, and the id.
\<close>

theorem signUp_signIn_rejections:
  "((\<exists>u\<in>set (Users s). user_email u = email) \<longrightarrow>
      signUp sign new_id name email password s = (Inl (Error ''User already exists''), s)) \<and>
   (\<not> (\<exists>u\<in>set (Users s). user_email u = email) \<longrightarrow>
      signIn sign email password s = (Inl (Error ''Invalid email or password''), s)) \<and>
   (\<forall>u. find (\<lambda>u. user_email u = email) (Users s) = Some u \<and> user_password u \<noteq> password \<longrightarrow>
      signIn sign email password s = (Inl (Error ''Invalid email or password''), s)) \<and>
   (\<forall>u. find (\<lambda>u. user_email u = email) (Users s) = Some u \<and> user_password u = password \<longrightarrow>
      signIn sign email password s =
        (Inr \<lparr> ad_token = sign \<lparr> pl_userId = Some (user_id u) \<rparr> JWT_SECRET,
               ad_userId = user_id u \<rparr>, s))"
proof (intro conjI impI allI)
  assume "\<exists>u\<in>set (Users s). user_email u = email"
  then have "find (\<lambda>u. user_email u = email) (Users s) \<noteq> None"
    by (auto simp: find_None_iff)
  then show "signUp sign new_id name email password s = (Inl (Error ''User already exists''), s)"
    by (auto simp: signUp_def)
next
  assume "\<not> (\<exists>u\<in>set (Users s). user_email u = email)"
  then have "find (\<lambda>u. user_email u = email) (Users s) = None"
    by (auto simp: find_None_iff)
  then show "signIn sign email password s = (Inl (Error ''Invalid email or password''), s)"
    by (simp add: signIn_def)
next
  fix u assume "find (\<lambda>u. user_email u = email) (Users s) = Some u \<and> user_password u \<noteq> password"
  then show "signIn sign email password s = (Inl (Error ''Invalid email or password''), s)"
    by (simp add: signIn_def)
next
  fix u assume "find (\<lambda>u. user_email u = email) (Users s) = Some u \<and> user_password u = password"
  then show "signIn sign email password s =
        (Inr \<lparr> ad_token = sign \<lparr> pl_userId = Some (user_id u) \<rparr> JWT_SECRET,
               ad_userId = user_id u \<rparr>, s)"
    by (simp add: signIn_def)
qed

theorem signUp_signIn_rejections_witness:
  "signUp example_sign ''U2'' ''Bob'' ''ann@example.org'' ''pw'' example_store
     = (Inl (Error ''User already exists''), example_store) \<and>
   signIn example_sign ''bob@example.org'' ''hunter2'' example_store
     = (Inl (Error ''Invalid email or password''), example_store) \<and>
   signIn example_sign ''ann@example.org'' ''Hunter2'' example_store
     = (Inl (Error ''Invalid email or password''), example_store) \<and>
   signIn example_sign ''ann@example.org'' ''hunter2'' example_store
     = (Inr \<lparr> ad_token = ''secret:U1'', ad_userId = ''U1'' \<rparr>, example_store)"
proof -
  have 1: "\<exists>u\<in>set (Users example_store). user_email u = ''ann@example.org''"
    by (simp add: example_store_def example_user_def)
  have 2: "\<not> (\<exists>u\<in>set (Users example_store). user_email u = ''bob@example.org'')"
    by (simp add: example_store_def example_user_def)
  have 3: "find (\<lambda>u. user_email u = ''ann@example.org'') (Users example_store) = Some example_user"
    by (simp add: example_store_def example_user_def)
  have 4: "user_password example_user \<noteq> ''Hunter2''" "user_password example_user = ''hunter2''"
    "user_id example_user = ''U1''"
    by (simp_all add: example_user_def)
  have 5: "example_sign \<lparr> pl_userId = Some ''U1'' \<rparr> JWT_SECRET = ''secret:U1''"
    by (simp add: example_sign_def JWT_SECRET_def)
  show ?thesis
    using signUp_signIn_rejections[of example_store "''ann@example.org''" example_sign "''U2''" "''Bob''" "''pw''"]
          signUp_signIn_rejections[of example_store "''bob@example.org''" example_sign "''U2''" "''Bob''" "''hunter2''"]
          signUp_signIn_rejections[of example_store "''ann@example.org''" example_sign "''U2''" "''Bob''" "''Hunter2''"]
          signUp_signIn_rejections[of example_store "''ann@example.org''" example_sign "''U2''" "''Bob''" "''hunter2''"]
          1 2 3 4 5
    by simp
qed

subsection \<open>The request context\<close>

text \<open>
  Claim C8. For every authorization header, present or not, and every behaviour of
  token verification, \<open>context\<close> returns a context and no error; the context carries a
  user exactly when the token verifies, its payload names a user id and that id
  resolves, and the user it carries is the resolved one; in every other case the user
  of the context is null.
\<close>

theorem context_never_raises:
  "\<exists>c. context verify authorization s = (Inr c, s) \<and>
     (\<forall>u. ctx_user c = Some u \<longleftrightarrow>
        (\<exists>decoded uid.
           verify (case authorization of None \<Rightarrow> '''' | Some h \<Rightarrow> h) JWT_SECRET = Inr decoded \<and>
           pl_userId decoded = Some uid \<and>
           findById user_id (Users s) uid = Some u)) \<and>
     (\<not> (\<exists>decoded uid u.
           verify (case authorization of None \<Rightarrow> '''' | Some h \<Rightarrow> h) JWT_SECRET = Inr decoded \<and>
           pl_userId decoded = Some uid \<and>
           findById user_id (Users s) uid = Some u) \<longrightarrow> ctx_user c = None)"
  by (auto simp: context_def context_try_def Let_def split: sum.splits option.splits)

theorem context_never_raises_witness:
  "context example_verify None example_store = (Inr \<lparr> ctx_user = None \<rparr>, example_store) \<and>
   context example_verify (Some ''garbage'') example_store = (Inr \<lparr> ctx_user = None \<rparr>, example_store) \<and>
   context example_verify (Some ''secret:U9'') example_store = (Inr \<lparr> ctx_user = None \<rparr>, example_store) \<and>
   context example_verify (Some ''secret:U1'') example_store = (Inr \<lparr> ctx_user = Some example_user \<rparr>, example_store)"
proof -
  have v: "example_verify '''' JWT_SECRET = Inl (Error ''invalid token'')"
    "example_verify ''garbage'' JWT_SECRET = Inl (Error ''invalid token'')"
    "example_verify ''secret:U9'' JWT_SECRET = Inr \<lparr> pl_userId = Some ''U9'' \<rparr>"
    "example_verify ''secret:U1'' JWT_SECRET = Inr \<lparr> pl_userId = Some ''U1'' \<rparr>"
    by (simp_all add: example_verify_def JWT_SECRET_def)
  have f: "findById user_id (Users example_store) ''U9'' = None"
    "findById user_id (Users example_store) ''U1'' = Some example_user"
    by (simp_all add: example_store_def example_user_def findById_def)
  show ?thesis
    using context_never_raises[of example_verify None example_store]
          context_never_raises[of example_verify "Some ''garbage''" example_store]
          context_never_raises[of example_verify "Some ''secret:U9''" example_store]
          context_never_raises[of example_verify "Some ''secret:U1''" example_store]
          v f
    by (simp add: context_def context_try_def)
qed

subsection \<open>No transition graph on the status\<close>

text \<open>
  Claim C9. For an existing order and any status string, \<open>updateOrderStatus\<close>
  succeeds, the order it returns has that status, and the order stored under the id
  has that status. The instance moves an order from placed to shipped, and to a status
  outside the enum of the schema.
\<close>

theorem updateOrderStatus_any_status:
  assumes "findById order_id (Orders s) i = Some d"
  shows "\<exists>r s'. updateOrderStatus \<lparr> uosi_id = i, uosi_status = st \<rparr> s = (Inr r, s') \<and>
           status (uos_order r) = st \<and>
           findById order_id (Orders s') i = Some (d\<lparr>order_status := st\<rparr>)"
proof -
  from assms have f: "find (\<lambda>d. order_id d = i) (Orders s) = Some d" by (simp add: findById_def)
  then have idd: "order_id d = i" by (auto simp: find_Some_iff)
  from f have fst: "fst (findOneAndUpdate (\<lambda>d. order_id d = i) (\<lambda>d. d\<lparr>order_status := st\<rparr>) (Orders s))
      = Some (d\<lparr>order_status := st\<rparr>)" by (simp add: findOneAndUpdate_fst)
  from f idd have snd: "find (\<lambda>d. order_id d = i)
      (snd (findOneAndUpdate (\<lambda>d. order_id d = i) (\<lambda>d. d\<lparr>order_status := st\<rparr>) (Orders s)))
      = Some (d\<lparr>order_status := st\<rparr>)" by (intro find_after_update) simp_all
  obtain r ds where rd: "findOneAndUpdate (\<lambda>d. order_id d = i) (\<lambda>d. d\<lparr>order_status := st\<rparr>) (Orders s) = (r, ds)"
    by (cases "findOneAndUpdate (\<lambda>d. order_id d = i) (\<lambda>d. d\<lparr>order_status := st\<rparr>) (Orders s)")
  with fst snd show ?thesis
    by (simp add: updateOrderStatus_def Let_def populate_def findById_def)
qed

theorem updateOrderStatus_any_status_witness:
  "(\<exists>r s'. updateOrderStatus \<lparr> uosi_id = ''O1'', uosi_status = ''shipped'' \<rparr> example_store2 = (Inr r, s') \<and>
           status (uos_order r) = ''shipped'' \<and>
           findById order_id (Orders s') ''O1'' = Some (example_order\<lparr>order_status := ''shipped''\<rparr>)) \<and>
   order_status example_order = ''placed'' \<and>
   (\<exists>r s'. updateOrderStatus \<lparr> uosi_id = ''O1'', uosi_status = ''lost in transit'' \<rparr> example_store2 = (Inr r, s') \<and>
           status (uos_order r) = ''lost in transit'' \<and>
           findById order_id (Orders s') ''O1'' = Some (example_order\<lparr>order_status := ''lost in transit''\<rparr>)) \<and>
   ''lost in transit'' \<notin> set status_enum"
proof -
  have 1: "findById order_id (Orders example_store2) ''O1'' = Some example_order"
    by (simp add: example_store2_def example_order_def example_order2_def findById_def)
  have 2: "order_status example_order = ''placed''" by (simp add: example_order_def)
  have 3: "''lost in transit'' \<notin> set status_enum" by (simp add: status_enum_def)
  show ?thesis
    using updateOrderStatus_any_status[OF 1, of "''shipped''"]
          updateOrderStatus_any_status[OF 1, of "''lost in transit''"] 2 3
    by blast
qed

subsection \<open>A price of zero\<close>

text \<open>
  Claim C10, as amended. In a store whose ids are unique ObjectIds, when the user
  resolves, the requested product ids are pairwise distinct and each resolves, and one
  of them resolves to a product with the price 0, \<open>createOrder\<close> fails with the
  missing-price error and the store is unchanged; the price check answers for the
  price 0 what it answers for a missing price.
\<close>

theorem createOrder_zero_price:
  assumes "store_ok isObjectId s"
    and "findById user_id (Users s) (userId input) = Some u"
    and "distinct (productIds input)"
    and "\<forall>i\<in>set (productIds input). \<exists>p. findById product_id (Products s) i = Some p"
    and "i \<in> set (productIds input)"
    and "findById product_id (Products s) i = Some p"
    and "product_price p = Some 0"
  shows "createOrder isObjectId new_id now input s
           = (Inl (Error ''Product price is undefined or null''), s) \<and>
         add_price acc p = add_price acc (p\<lparr>product_price := None\<rparr>)"
proof -
  from assms(7) have "falsy (product_price p)" by (simp add: falsy_def)
  with assms(1-6) have "createOrder isObjectId new_id now input s
           = (Inl (Error ''Product price is undefined or null''), s)"
    by (rule createOrder_falsy_price)
  with assms(7) show ?thesis by (simp add: add_price_def falsy_def)
qed

theorem createOrder_zero_price_witness:
  "createOrder hex24 oidO3 now0 \<lparr> userId = oidU1, productIds = [oidP3, oidP2], coi_status = None \<rparr> shop
     = (Inl (Error ''Product price is undefined or null''), shop)"
proof -
  let ?in = "\<lparr> userId = oidU1, productIds = [oidP3, oidP2], coi_status = None \<rparr>"
  have u: "findById user_id (Users shop) (userId ?in) = Some shop_user"
    by (simp add: shop_users)
  have d: "distinct (productIds ?in)" by (simp add: oid_defs)
  have r: "\<forall>i\<in>set (productIds ?in). \<exists>p. findById product_id (Products shop) i = Some p"
    by (simp add: shop_products)
  have m: "oidP3 \<in> set (productIds ?in)" by simp
  have n: "product_price (example_product oidP3 (Some 0) :: real product_doc) = Some 0"
    by (simp add: example_product_def)
  from createOrder_zero_price[OF shop_ok u d r m shop_products(3) n, of oidO3 now0]
  show ?thesis by blast
qed

text \<open>
  Claim C10 as stated fails when an id is requested twice: the ids \<open>[P3, P3, P1]\<close>
  resolve, P3 is priced 0, and \<open>createOrder\<close> fails with the products-not-found error,
  which comes before the price check.
\<close>

theorem createOrder_zero_price_counterexample:
  "findById user_id (Users shop) oidU1 = Some shop_user \<and>
   map (\<lambda>i. map_option product_price (findById product_id (Products shop) i)) [oidP3, oidP3, oidP1]
     = [Some (Some 0), Some (Some 0), Some (Some 10)] \<and>
   createOrder hex24 oidO3 now0
      \<lparr> userId = oidU1, productIds = [oidP3, oidP3, oidP1], coi_status = None \<rparr> shop
     = (Inl (Error ''One or more products not found''), shop) \<and>
   Error ''One or more products not found'' \<noteq> Error ''Product price is undefined or null''"
  by (simp add: createOrder_def shop_users shop_products shop_find_in shop_createOrder_casts
      hex24_oids example_product_def)

end
